theory Spec2Isabelle
  imports Main "HOL-Library.Sublist" "HOL-Library.AList" "HOL-Library.While_Combinator"
begin

section \<open>Python values\<close>

text \<open>
  A Python \<^verbatim>\<open>str\<close> is a sequence of Unicode code points, so \<^verbatim>\<open>len\<close> and slicing count
  code points. The model keeps it as a list of code points; \<open>asc\<close> reads an ASCII literal, and
  text outside ASCII is written by its code points.
\<close>

type_synonym pystr = "nat list"

definition asc :: "string \<Rightarrow> pystr" where
  "asc s = map of_char s"

text \<open>
  An exception that a function of the planner or of the formatter raises, by the name of its
  type. The value of such a function is \<open>Inl\<close> of the exception it raises or \<open>Inr\<close> of
  what it returns.
\<close>

datatype exn = Exn pystr

text \<open>
  Values of type \<^verbatim>\<open>Any\<close>: parameter values and tool outputs. \<open>PObj\<close> stands for every
  object that is neither \<^verbatim>\<open>None\<close>, a string nor an integer, given by what \<^verbatim>\<open>str()\<close>
  does for it: the text it returns, or the exception that the method \<^verbatim>\<open>__str__\<close> of the
  object raises.
\<close>

datatype pyval = PNone | PStr pystr | PInt int | PObj "exn + pystr"

text \<open>
  The decimal digits of a non-negative integer, and of an integer with its sign. The numbers
  that the planner and the formatter write this way count the entries of a list, and a list
  of Python has fewer than \<open>2\<^sup>6\<^sup>3\<close> entries.
\<close>

fun nat_str :: "nat \<Rightarrow> pystr" where
  "nat_str n = (if n < 10 then [48 + n] else nat_str (n div 10) @ [48 + n mod 10])"

definition int_str :: "int \<Rightarrow> pystr" where
  "int_str i = (if i < 0 then asc ''-'' @ nat_str (nat (- i)) else nat_str (nat i))"



text \<open>\<^verbatim>\<open>sep.join(lines)\<close>.\<close>

fun py_join :: "pystr \<Rightarrow> pystr list \<Rightarrow> pystr" where
  "py_join sep [] = []"
| "py_join sep [x] = x"
| "py_join sep (x # y # ys) = x @ sep @ py_join sep (y # ys)"

section \<open>Python text\<close>

text \<open>
  The classes of code points that \<^verbatim>\<open>str.isspace\<close>, \<^verbatim>\<open>str.isdecimal\<close> and
  \<^verbatim>\<open>str.isalnum\<close> decide, as tables of ranges (Unicode 14.0, the tables of Python 3.11).
  The module \<^verbatim>\<open>re\<close> reads \<^verbatim>\<open>\s\<close>, \<^verbatim>\<open>\d\<close> and \<^verbatim>\<open>\w\<close> from the same tables, the last
  with the underscore added.
\<close>

definition in_ranges :: "(nat \<times> nat) list \<Rightarrow> nat \<Rightarrow> bool" where
  "in_ranges rs c = list_ex (\<lambda>(lo, hi). lo \<le> c \<and> c \<le> hi) rs"

definition space_ranges :: "(nat \<times> nat) list" where
  "space_ranges =
    [(0x9, 0xD), (0x1C, 0x20), (0x85, 0x85), (0xA0, 0xA0), (0x1680, 0x1680), (0x2000, 0x200A),
     (0x2028, 0x2029), (0x202F, 0x202F), (0x205F, 0x205F), (0x3000, 0x3000)]"

definition decimal_ranges :: "(nat \<times> nat) list" where
  "decimal_ranges =
    [(0x30, 0x39), (0x660, 0x669), (0x6F0, 0x6F9), (0x7C0, 0x7C9), (0x966, 0x96F), (0x9E6, 0x9EF),
     (0xA66, 0xA6F), (0xAE6, 0xAEF), (0xB66, 0xB6F), (0xBE6, 0xBEF), (0xC66, 0xC6F),
     (0xCE6, 0xCEF), (0xD66, 0xD6F), (0xDE6, 0xDEF), (0xE50, 0xE59), (0xED0, 0xED9),
     (0xF20, 0xF29), (0x1040, 0x1049), (0x1090, 0x1099), (0x17E0, 0x17E9), (0x1810, 0x1819),
     (0x1946, 0x194F), (0x19D0, 0x19D9), (0x1A80, 0x1A89), (0x1A90, 0x1A99), (0x1B50, 0x1B59),
     (0x1BB0, 0x1BB9), (0x1C40, 0x1C49), (0x1C50, 0x1C59), (0xA620, 0xA629), (0xA8D0, 0xA8D9),
     (0xA900, 0xA909), (0xA9D0, 0xA9D9), (0xA9F0, 0xA9F9), (0xAA50, 0xAA59), (0xABF0, 0xABF9),
     (0xFF10, 0xFF19), (0x104A0, 0x104A9), (0x10D30, 0x10D39), (0x11066, 0x1106F),
     (0x110F0, 0x110F9), (0x11136, 0x1113F), (0x111D0, 0x111D9), (0x112F0, 0x112F9),
     (0x11450, 0x11459), (0x114D0, 0x114D9), (0x11650, 0x11659), (0x116C0, 0x116C9),
     (0x11730, 0x11739), (0x118E0, 0x118E9), (0x11950, 0x11959), (0x11C50, 0x11C59),
     (0x11D50, 0x11D59), (0x11DA0, 0x11DA9), (0x16A60, 0x16A69), (0x16AC0, 0x16AC9),
     (0x16B50, 0x16B59), (0x1D7CE, 0x1D7FF), (0x1E140, 0x1E149), (0x1E2F0, 0x1E2F9),
     (0x1E950, 0x1E959), (0x1FBF0, 0x1FBF9)]"

definition alnum_ranges :: "(nat \<times> nat) list" where
  "alnum_ranges =
    [(0x30, 0x39), (0x41, 0x5A), (0x61, 0x7A), (0xAA, 0xAA), (0xB2, 0xB3), (0xB5, 0xB5),
     (0xB9, 0xBA), (0xBC, 0xBE), (0xC0, 0xD6), (0xD8, 0xF6), (0xF8, 0x2C1), (0x2C6, 0x2D1),
     (0x2E0, 0x2E4), (0x2EC, 0x2EC), (0x2EE, 0x2EE), (0x370, 0x374), (0x376, 0x377),
     (0x37A, 0x37D), (0x37F, 0x37F), (0x386, 0x386), (0x388, 0x38A), (0x38C, 0x38C),
     (0x38E, 0x3A1), (0x3A3, 0x3F5), (0x3F7, 0x481), (0x48A, 0x52F), (0x531, 0x556),
     (0x559, 0x559), (0x560, 0x588), (0x5D0, 0x5EA), (0x5EF, 0x5F2), (0x620, 0x64A),
     (0x660, 0x669), (0x66E, 0x66F), (0x671, 0x6D3), (0x6D5, 0x6D5), (0x6E5, 0x6E6),
     (0x6EE, 0x6FC), (0x6FF, 0x6FF), (0x710, 0x710), (0x712, 0x72F), (0x74D, 0x7A5),
     (0x7B1, 0x7B1), (0x7C0, 0x7EA), (0x7F4, 0x7F5), (0x7FA, 0x7FA), (0x800, 0x815),
     (0x81A, 0x81A), (0x824, 0x824), (0x828, 0x828), (0x840, 0x858), (0x860, 0x86A),
     (0x870, 0x887), (0x889, 0x88E), (0x8A0, 0x8C9), (0x904, 0x939), (0x93D, 0x93D),
     (0x950, 0x950), (0x958, 0x961), (0x966, 0x96F), (0x971, 0x980), (0x985, 0x98C),
     (0x98F, 0x990), (0x993, 0x9A8), (0x9AA, 0x9B0), (0x9B2, 0x9B2), (0x9B6, 0x9B9),
     (0x9BD, 0x9BD), (0x9CE, 0x9CE), (0x9DC, 0x9DD), (0x9DF, 0x9E1), (0x9E6, 0x9F1),
     (0x9F4, 0x9F9), (0x9FC, 0x9FC), (0xA05, 0xA0A), (0xA0F, 0xA10), (0xA13, 0xA28),
     (0xA2A, 0xA30), (0xA32, 0xA33), (0xA35, 0xA36), (0xA38, 0xA39), (0xA59, 0xA5C),
     (0xA5E, 0xA5E), (0xA66, 0xA6F), (0xA72, 0xA74), (0xA85, 0xA8D), (0xA8F, 0xA91),
     (0xA93, 0xAA8), (0xAAA, 0xAB0), (0xAB2, 0xAB3), (0xAB5, 0xAB9), (0xABD, 0xABD),
     (0xAD0, 0xAD0), (0xAE0, 0xAE1), (0xAE6, 0xAEF), (0xAF9, 0xAF9), (0xB05, 0xB0C),
     (0xB0F, 0xB10), (0xB13, 0xB28), (0xB2A, 0xB30), (0xB32, 0xB33), (0xB35, 0xB39),
     (0xB3D, 0xB3D), (0xB5C, 0xB5D), (0xB5F, 0xB61), (0xB66, 0xB6F), (0xB71, 0xB77),
     (0xB83, 0xB83), (0xB85, 0xB8A), (0xB8E, 0xB90), (0xB92, 0xB95), (0xB99, 0xB9A),
     (0xB9C, 0xB9C), (0xB9E, 0xB9F), (0xBA3, 0xBA4), (0xBA8, 0xBAA), (0xBAE, 0xBB9),
     (0xBD0, 0xBD0), (0xBE6, 0xBF2), (0xC05, 0xC0C), (0xC0E, 0xC10), (0xC12, 0xC28),
     (0xC2A, 0xC39), (0xC3D, 0xC3D), (0xC58, 0xC5A), (0xC5D, 0xC5D), (0xC60, 0xC61),
     (0xC66, 0xC6F), (0xC78, 0xC7E), (0xC80, 0xC80), (0xC85, 0xC8C), (0xC8E, 0xC90),
     (0xC92, 0xCA8), (0xCAA, 0xCB3), (0xCB5, 0xCB9), (0xCBD, 0xCBD), (0xCDD, 0xCDE),
     (0xCE0, 0xCE1), (0xCE6, 0xCEF), (0xCF1, 0xCF2), (0xD04, 0xD0C), (0xD0E, 0xD10),
     (0xD12, 0xD3A), (0xD3D, 0xD3D), (0xD4E, 0xD4E), (0xD54, 0xD56), (0xD58, 0xD61),
     (0xD66, 0xD78), (0xD7A, 0xD7F), (0xD85, 0xD96), (0xD9A, 0xDB1), (0xDB3, 0xDBB),
     (0xDBD, 0xDBD), (0xDC0, 0xDC6), (0xDE6, 0xDEF), (0xE01, 0xE30), (0xE32, 0xE33),
     (0xE40, 0xE46), (0xE50, 0xE59), (0xE81, 0xE82), (0xE84, 0xE84), (0xE86, 0xE8A),
     (0xE8C, 0xEA3), (0xEA5, 0xEA5), (0xEA7, 0xEB0), (0xEB2, 0xEB3), (0xEBD, 0xEBD),
     (0xEC0, 0xEC4), (0xEC6, 0xEC6), (0xED0, 0xED9), (0xEDC, 0xEDF), (0xF00, 0xF00),
     (0xF20, 0xF33), (0xF40, 0xF47), (0xF49, 0xF6C), (0xF88, 0xF8C), (0x1000, 0x102A),
     (0x103F, 0x1049), (0x1050, 0x1055), (0x105A, 0x105D), (0x1061, 0x1061), (0x1065, 0x1066),
     (0x106E, 0x1070), (0x1075, 0x1081), (0x108E, 0x108E), (0x1090, 0x1099), (0x10A0, 0x10C5),
     (0x10C7, 0x10C7), (0x10CD, 0x10CD), (0x10D0, 0x10FA), (0x10FC, 0x1248), (0x124A, 0x124D),
     (0x1250, 0x1256), (0x1258, 0x1258), (0x125A, 0x125D), (0x1260, 0x1288), (0x128A, 0x128D),
     (0x1290, 0x12B0), (0x12B2, 0x12B5), (0x12B8, 0x12BE), (0x12C0, 0x12C0), (0x12C2, 0x12C5),
     (0x12C8, 0x12D6), (0x12D8, 0x1310), (0x1312, 0x1315), (0x1318, 0x135A), (0x1369, 0x137C),
     (0x1380, 0x138F), (0x13A0, 0x13F5), (0x13F8, 0x13FD), (0x1401, 0x166C), (0x166F, 0x167F),
     (0x1681, 0x169A), (0x16A0, 0x16EA), (0x16EE, 0x16F8), (0x1700, 0x1711), (0x171F, 0x1731),
     (0x1740, 0x1751), (0x1760, 0x176C), (0x176E, 0x1770), (0x1780, 0x17B3), (0x17D7, 0x17D7),
     (0x17DC, 0x17DC), (0x17E0, 0x17E9), (0x17F0, 0x17F9), (0x1810, 0x1819), (0x1820, 0x1878),
     (0x1880, 0x1884), (0x1887, 0x18A8), (0x18AA, 0x18AA), (0x18B0, 0x18F5), (0x1900, 0x191E),
     (0x1946, 0x196D), (0x1970, 0x1974), (0x1980, 0x19AB), (0x19B0, 0x19C9), (0x19D0, 0x19DA),
     (0x1A00, 0x1A16), (0x1A20, 0x1A54), (0x1A80, 0x1A89), (0x1A90, 0x1A99), (0x1AA7, 0x1AA7),
     (0x1B05, 0x1B33), (0x1B45, 0x1B4C), (0x1B50, 0x1B59), (0x1B83, 0x1BA0), (0x1BAE, 0x1BE5),
     (0x1C00, 0x1C23), (0x1C40, 0x1C49), (0x1C4D, 0x1C7D), (0x1C80, 0x1C88), (0x1C90, 0x1CBA),
     (0x1CBD, 0x1CBF), (0x1CE9, 0x1CEC), (0x1CEE, 0x1CF3), (0x1CF5, 0x1CF6), (0x1CFA, 0x1CFA),
     (0x1D00, 0x1DBF), (0x1E00, 0x1F15), (0x1F18, 0x1F1D), (0x1F20, 0x1F45), (0x1F48, 0x1F4D),
     (0x1F50, 0x1F57), (0x1F59, 0x1F59), (0x1F5B, 0x1F5B), (0x1F5D, 0x1F5D), (0x1F5F, 0x1F7D),
     (0x1F80, 0x1FB4), (0x1FB6, 0x1FBC), (0x1FBE, 0x1FBE), (0x1FC2, 0x1FC4), (0x1FC6, 0x1FCC),
     (0x1FD0, 0x1FD3), (0x1FD6, 0x1FDB), (0x1FE0, 0x1FEC), (0x1FF2, 0x1FF4), (0x1FF6, 0x1FFC),
     (0x2070, 0x2071), (0x2074, 0x2079), (0x207F, 0x2089), (0x2090, 0x209C), (0x2102, 0x2102),
     (0x2107, 0x2107), (0x210A, 0x2113), (0x2115, 0x2115), (0x2119, 0x211D), (0x2124, 0x2124),
     (0x2126, 0x2126), (0x2128, 0x2128), (0x212A, 0x212D), (0x212F, 0x2139), (0x213C, 0x213F),
     (0x2145, 0x2149), (0x214E, 0x214E), (0x2150, 0x2189), (0x2460, 0x249B), (0x24EA, 0x24FF),
     (0x2776, 0x2793), (0x2C00, 0x2CE4), (0x2CEB, 0x2CEE), (0x2CF2, 0x2CF3), (0x2CFD, 0x2CFD),
     (0x2D00, 0x2D25), (0x2D27, 0x2D27), (0x2D2D, 0x2D2D), (0x2D30, 0x2D67), (0x2D6F, 0x2D6F),
     (0x2D80, 0x2D96), (0x2DA0, 0x2DA6), (0x2DA8, 0x2DAE), (0x2DB0, 0x2DB6), (0x2DB8, 0x2DBE),
     (0x2DC0, 0x2DC6), (0x2DC8, 0x2DCE), (0x2DD0, 0x2DD6), (0x2DD8, 0x2DDE), (0x2E2F, 0x2E2F),
     (0x3005, 0x3007), (0x3021, 0x3029), (0x3031, 0x3035), (0x3038, 0x303C), (0x3041, 0x3096),
     (0x309D, 0x309F), (0x30A1, 0x30FA), (0x30FC, 0x30FF), (0x3105, 0x312F), (0x3131, 0x318E),
     (0x3192, 0x3195), (0x31A0, 0x31BF), (0x31F0, 0x31FF), (0x3220, 0x3229), (0x3248, 0x324F),
     (0x3251, 0x325F), (0x3280, 0x3289), (0x32B1, 0x32BF), (0x3400, 0x4DBF), (0x4E00, 0xA48C),
     (0xA4D0, 0xA4FD), (0xA500, 0xA60C), (0xA610, 0xA62B), (0xA640, 0xA66E), (0xA67F, 0xA69D),
     (0xA6A0, 0xA6EF), (0xA717, 0xA71F), (0xA722, 0xA788), (0xA78B, 0xA7CA), (0xA7D0, 0xA7D1),
     (0xA7D3, 0xA7D3), (0xA7D5, 0xA7D9), (0xA7F2, 0xA801), (0xA803, 0xA805), (0xA807, 0xA80A),
     (0xA80C, 0xA822), (0xA830, 0xA835), (0xA840, 0xA873), (0xA882, 0xA8B3), (0xA8D0, 0xA8D9),
     (0xA8F2, 0xA8F7), (0xA8FB, 0xA8FB), (0xA8FD, 0xA8FE), (0xA900, 0xA925), (0xA930, 0xA946),
     (0xA960, 0xA97C), (0xA984, 0xA9B2), (0xA9CF, 0xA9D9), (0xA9E0, 0xA9E4), (0xA9E6, 0xA9FE),
     (0xAA00, 0xAA28), (0xAA40, 0xAA42), (0xAA44, 0xAA4B), (0xAA50, 0xAA59), (0xAA60, 0xAA76),
     (0xAA7A, 0xAA7A), (0xAA7E, 0xAAAF), (0xAAB1, 0xAAB1), (0xAAB5, 0xAAB6), (0xAAB9, 0xAABD),
     (0xAAC0, 0xAAC0), (0xAAC2, 0xAAC2), (0xAADB, 0xAADD), (0xAAE0, 0xAAEA), (0xAAF2, 0xAAF4),
     (0xAB01, 0xAB06), (0xAB09, 0xAB0E), (0xAB11, 0xAB16), (0xAB20, 0xAB26), (0xAB28, 0xAB2E),
     (0xAB30, 0xAB5A), (0xAB5C, 0xAB69), (0xAB70, 0xABE2), (0xABF0, 0xABF9), (0xAC00, 0xD7A3),
     (0xD7B0, 0xD7C6), (0xD7CB, 0xD7FB), (0xF900, 0xFA6D), (0xFA70, 0xFAD9), (0xFB00, 0xFB06),
     (0xFB13, 0xFB17), (0xFB1D, 0xFB1D), (0xFB1F, 0xFB28), (0xFB2A, 0xFB36), (0xFB38, 0xFB3C),
     (0xFB3E, 0xFB3E), (0xFB40, 0xFB41), (0xFB43, 0xFB44), (0xFB46, 0xFBB1), (0xFBD3, 0xFD3D),
     (0xFD50, 0xFD8F), (0xFD92, 0xFDC7), (0xFDF0, 0xFDFB), (0xFE70, 0xFE74), (0xFE76, 0xFEFC),
     (0xFF10, 0xFF19), (0xFF21, 0xFF3A), (0xFF41, 0xFF5A), (0xFF66, 0xFFBE), (0xFFC2, 0xFFC7),
     (0xFFCA, 0xFFCF), (0xFFD2, 0xFFD7), (0xFFDA, 0xFFDC), (0x10000, 0x1000B),
     (0x1000D, 0x10026), (0x10028, 0x1003A), (0x1003C, 0x1003D), (0x1003F, 0x1004D),
     (0x10050, 0x1005D), (0x10080, 0x100FA), (0x10107, 0x10133), (0x10140, 0x10178),
     (0x1018A, 0x1018B), (0x10280, 0x1029C), (0x102A0, 0x102D0), (0x102E1, 0x102FB),
     (0x10300, 0x10323), (0x1032D, 0x1034A), (0x10350, 0x10375), (0x10380, 0x1039D),
     (0x103A0, 0x103C3), (0x103C8, 0x103CF), (0x103D1, 0x103D5), (0x10400, 0x1049D),
     (0x104A0, 0x104A9), (0x104B0, 0x104D3), (0x104D8, 0x104FB), (0x10500, 0x10527),
     (0x10530, 0x10563), (0x10570, 0x1057A), (0x1057C, 0x1058A), (0x1058C, 0x10592),
     (0x10594, 0x10595), (0x10597, 0x105A1), (0x105A3, 0x105B1), (0x105B3, 0x105B9),
     (0x105BB, 0x105BC), (0x10600, 0x10736), (0x10740, 0x10755), (0x10760, 0x10767),
     (0x10780, 0x10785), (0x10787, 0x107B0), (0x107B2, 0x107BA), (0x10800, 0x10805),
     (0x10808, 0x10808), (0x1080A, 0x10835), (0x10837, 0x10838), (0x1083C, 0x1083C),
     (0x1083F, 0x10855), (0x10858, 0x10876), (0x10879, 0x1089E), (0x108A7, 0x108AF),
     (0x108E0, 0x108F2), (0x108F4, 0x108F5), (0x108FB, 0x1091B), (0x10920, 0x10939),
     (0x10980, 0x109B7), (0x109BC, 0x109CF), (0x109D2, 0x10A00), (0x10A10, 0x10A13),
     (0x10A15, 0x10A17), (0x10A19, 0x10A35), (0x10A40, 0x10A48), (0x10A60, 0x10A7E),
     (0x10A80, 0x10A9F), (0x10AC0, 0x10AC7), (0x10AC9, 0x10AE4), (0x10AEB, 0x10AEF),
     (0x10B00, 0x10B35), (0x10B40, 0x10B55), (0x10B58, 0x10B72), (0x10B78, 0x10B91),
     (0x10BA9, 0x10BAF), (0x10C00, 0x10C48), (0x10C80, 0x10CB2), (0x10CC0, 0x10CF2),
     (0x10CFA, 0x10D23), (0x10D30, 0x10D39), (0x10E60, 0x10E7E), (0x10E80, 0x10EA9),
     (0x10EB0, 0x10EB1), (0x10F00, 0x10F27), (0x10F30, 0x10F45), (0x10F51, 0x10F54),
     (0x10F70, 0x10F81), (0x10FB0, 0x10FCB), (0x10FE0, 0x10FF6), (0x11003, 0x11037),
     (0x11052, 0x1106F), (0x11071, 0x11072), (0x11075, 0x11075), (0x11083, 0x110AF),
     (0x110D0, 0x110E8), (0x110F0, 0x110F9), (0x11103, 0x11126), (0x11136, 0x1113F),
     (0x11144, 0x11144), (0x11147, 0x11147), (0x11150, 0x11172), (0x11176, 0x11176),
     (0x11183, 0x111B2), (0x111C1, 0x111C4), (0x111D0, 0x111DA), (0x111DC, 0x111DC),
     (0x111E1, 0x111F4), (0x11200, 0x11211), (0x11213, 0x1122B), (0x11280, 0x11286),
     (0x11288, 0x11288), (0x1128A, 0x1128D), (0x1128F, 0x1129D), (0x1129F, 0x112A8),
     (0x112B0, 0x112DE), (0x112F0, 0x112F9), (0x11305, 0x1130C), (0x1130F, 0x11310),
     (0x11313, 0x11328), (0x1132A, 0x11330), (0x11332, 0x11333), (0x11335, 0x11339),
     (0x1133D, 0x1133D), (0x11350, 0x11350), (0x1135D, 0x11361), (0x11400, 0x11434),
     (0x11447, 0x1144A), (0x11450, 0x11459), (0x1145F, 0x11461), (0x11480, 0x114AF),
     (0x114C4, 0x114C5), (0x114C7, 0x114C7), (0x114D0, 0x114D9), (0x11580, 0x115AE),
     (0x115D8, 0x115DB), (0x11600, 0x1162F), (0x11644, 0x11644), (0x11650, 0x11659),
     (0x11680, 0x116AA), (0x116B8, 0x116B8), (0x116C0, 0x116C9), (0x11700, 0x1171A),
     (0x11730, 0x1173B), (0x11740, 0x11746), (0x11800, 0x1182B), (0x118A0, 0x118F2),
     (0x118FF, 0x11906), (0x11909, 0x11909), (0x1190C, 0x11913), (0x11915, 0x11916),
     (0x11918, 0x1192F), (0x1193F, 0x1193F), (0x11941, 0x11941), (0x11950, 0x11959),
     (0x119A0, 0x119A7), (0x119AA, 0x119D0), (0x119E1, 0x119E1), (0x119E3, 0x119E3),
     (0x11A00, 0x11A00), (0x11A0B, 0x11A32), (0x11A3A, 0x11A3A), (0x11A50, 0x11A50),
     (0x11A5C, 0x11A89), (0x11A9D, 0x11A9D), (0x11AB0, 0x11AF8), (0x11C00, 0x11C08),
     (0x11C0A, 0x11C2E), (0x11C40, 0x11C40), (0x11C50, 0x11C6C), (0x11C72, 0x11C8F),
     (0x11D00, 0x11D06), (0x11D08, 0x11D09), (0x11D0B, 0x11D30), (0x11D46, 0x11D46),
     (0x11D50, 0x11D59), (0x11D60, 0x11D65), (0x11D67, 0x11D68), (0x11D6A, 0x11D89),
     (0x11D98, 0x11D98), (0x11DA0, 0x11DA9), (0x11EE0, 0x11EF2), (0x11FB0, 0x11FB0),
     (0x11FC0, 0x11FD4), (0x12000, 0x12399), (0x12400, 0x1246E), (0x12480, 0x12543),
     (0x12F90, 0x12FF0), (0x13000, 0x1342E), (0x14400, 0x14646), (0x16800, 0x16A38),
     (0x16A40, 0x16A5E), (0x16A60, 0x16A69), (0x16A70, 0x16ABE), (0x16AC0, 0x16AC9),
     (0x16AD0, 0x16AED), (0x16B00, 0x16B2F), (0x16B40, 0x16B43), (0x16B50, 0x16B59),
     (0x16B5B, 0x16B61), (0x16B63, 0x16B77), (0x16B7D, 0x16B8F), (0x16E40, 0x16E96),
     (0x16F00, 0x16F4A), (0x16F50, 0x16F50), (0x16F93, 0x16F9F), (0x16FE0, 0x16FE1),
     (0x16FE3, 0x16FE3), (0x17000, 0x187F7), (0x18800, 0x18CD5), (0x18D00, 0x18D08),
     (0x1AFF0, 0x1AFF3), (0x1AFF5, 0x1AFFB), (0x1AFFD, 0x1AFFE), (0x1B000, 0x1B122),
     (0x1B150, 0x1B152), (0x1B164, 0x1B167), (0x1B170, 0x1B2FB), (0x1BC00, 0x1BC6A),
     (0x1BC70, 0x1BC7C), (0x1BC80, 0x1BC88), (0x1BC90, 0x1BC99), (0x1D2E0, 0x1D2F3),
     (0x1D360, 0x1D378), (0x1D400, 0x1D454), (0x1D456, 0x1D49C), (0x1D49E, 0x1D49F),
     (0x1D4A2, 0x1D4A2), (0x1D4A5, 0x1D4A6), (0x1D4A9, 0x1D4AC), (0x1D4AE, 0x1D4B9),
     (0x1D4BB, 0x1D4BB), (0x1D4BD, 0x1D4C3), (0x1D4C5, 0x1D505), (0x1D507, 0x1D50A),
     (0x1D50D, 0x1D514), (0x1D516, 0x1D51C), (0x1D51E, 0x1D539), (0x1D53B, 0x1D53E),
     (0x1D540, 0x1D544), (0x1D546, 0x1D546), (0x1D54A, 0x1D550), (0x1D552, 0x1D6A5),
     (0x1D6A8, 0x1D6C0), (0x1D6C2, 0x1D6DA), (0x1D6DC, 0x1D6FA), (0x1D6FC, 0x1D714),
     (0x1D716, 0x1D734), (0x1D736, 0x1D74E), (0x1D750, 0x1D76E), (0x1D770, 0x1D788),
     (0x1D78A, 0x1D7A8), (0x1D7AA, 0x1D7C2), (0x1D7C4, 0x1D7CB), (0x1D7CE, 0x1D7FF),
     (0x1DF00, 0x1DF1E), (0x1E100, 0x1E12C), (0x1E137, 0x1E13D), (0x1E140, 0x1E149),
     (0x1E14E, 0x1E14E), (0x1E290, 0x1E2AD), (0x1E2C0, 0x1E2EB), (0x1E2F0, 0x1E2F9),
     (0x1E7E0, 0x1E7E6), (0x1E7E8, 0x1E7EB), (0x1E7ED, 0x1E7EE), (0x1E7F0, 0x1E7FE),
     (0x1E800, 0x1E8C4), (0x1E8C7, 0x1E8CF), (0x1E900, 0x1E943), (0x1E94B, 0x1E94B),
     (0x1E950, 0x1E959), (0x1EC71, 0x1ECAB), (0x1ECAD, 0x1ECAF), (0x1ECB1, 0x1ECB4),
     (0x1ED01, 0x1ED2D), (0x1ED2F, 0x1ED3D), (0x1EE00, 0x1EE03), (0x1EE05, 0x1EE1F),
     (0x1EE21, 0x1EE22), (0x1EE24, 0x1EE24), (0x1EE27, 0x1EE27), (0x1EE29, 0x1EE32),
     (0x1EE34, 0x1EE37), (0x1EE39, 0x1EE39), (0x1EE3B, 0x1EE3B), (0x1EE42, 0x1EE42),
     (0x1EE47, 0x1EE47), (0x1EE49, 0x1EE49), (0x1EE4B, 0x1EE4B), (0x1EE4D, 0x1EE4F),
     (0x1EE51, 0x1EE52), (0x1EE54, 0x1EE54), (0x1EE57, 0x1EE57), (0x1EE59, 0x1EE59),
     (0x1EE5B, 0x1EE5B), (0x1EE5D, 0x1EE5D), (0x1EE5F, 0x1EE5F), (0x1EE61, 0x1EE62),
     (0x1EE64, 0x1EE64), (0x1EE67, 0x1EE6A), (0x1EE6C, 0x1EE72), (0x1EE74, 0x1EE77),
     (0x1EE79, 0x1EE7C), (0x1EE7E, 0x1EE7E), (0x1EE80, 0x1EE89), (0x1EE8B, 0x1EE9B),
     (0x1EEA1, 0x1EEA3), (0x1EEA5, 0x1EEA9), (0x1EEAB, 0x1EEBB), (0x1F100, 0x1F10C),
     (0x1FBF0, 0x1FBF9), (0x20000, 0x2A6DF), (0x2A700, 0x2B738), (0x2B740, 0x2B81D),
     (0x2B820, 0x2CEA1), (0x2CEB0, 0x2EBE0), (0x2F800, 0x2FA1D), (0x30000, 0x3134A)]"

definition py_isspace :: "nat \<Rightarrow> bool" where
  "py_isspace c = in_ranges space_ranges c"

definition py_isdecimal :: "nat \<Rightarrow> bool" where
  "py_isdecimal c = in_ranges decimal_ranges c"

definition py_isalnum :: "nat \<Rightarrow> bool" where
  "py_isalnum c = in_ranges alnum_ranges c"

text \<open>\<^verbatim>\<open>s.strip()\<close>: white space is removed from both ends.\<close>

definition py_strip :: "pystr \<Rightarrow> pystr" where
  "py_strip s = rev (dropWhile py_isspace (rev (dropWhile py_isspace s)))"

text \<open>
  \<^verbatim>\<open>s.lower()\<close>, for the letters whose lower case has an ASCII letter: the letters A to Z,
  the dotted capital I (to \<open>i\<close> and a combining dot) and the Kelvin sign (to \<open>k\<close>). Every
  other code point is kept. The planner only searches the lowered text for ASCII words, CJK
  words, digits and white space, and no other letter lowers to any of these.
\<close>

definition lower_char :: "nat \<Rightarrow> pystr" where
  "lower_char c =
     (if 0x41 \<le> c \<and> c \<le> 0x5A then [c + 0x20]
      else if c = 0x130 then [0x69, 0x307]
      else if c = 0x212A then [0x6B]
      else [c])"

definition py_lower :: "pystr \<Rightarrow> pystr" where
  "py_lower s = concat (map lower_char s)"

section \<open>Regular expressions\<close>

text \<open>
  The part of Python's \<^verbatim>\<open>re\<close> that the patterns of the planner use. A pattern is a list
  of alternatives, tried in order; an alternative is a sequence of atoms. The atoms are: a
  literal text; a class of characters repeated, greedy from zero (\<^verbatim>\<open>c*\<close>) or from one
  (\<^verbatim>\<open>c+\<close>), or lazy from zero (\<^verbatim>\<open>c*?\<close>); a choice of literal texts in order
  (\<^verbatim>\<open>(?:a|b)\<close>); a capturing group around an atom; and the word boundary \<^verbatim>\<open>\b\<close>.
\<close>

datatype cclass = CDigit | CSpace | CWord | CAny | CSet pystr | CRange nat nat
  | CUnion cclass cclass

fun class_has :: "cclass \<Rightarrow> nat \<Rightarrow> bool" where
  "class_has CDigit c = py_isdecimal c"
| "class_has CSpace c = py_isspace c"
| "class_has CWord c = (py_isalnum c \<or> c = 0x5F)"
| "class_has CAny c = (c \<noteq> 0xA)"
| "class_has (CSet cs) c = (c \<in> set cs)"
| "class_has (CRange lo hi) c = (lo \<le> c \<and> c \<le> hi)"
| "class_has (CUnion a b) c = (class_has a c \<or> class_has b c)"

datatype atom = Lit pystr | Rep0 cclass | Rep1 cclass | Lazy0 cclass | Alts "pystr list"
  | Capture atom | WordEdge

type_synonym regex = "atom list list"

text \<open>
  \<^verbatim>\<open>\b\<close> holds between a word character and a character that is not one, the ends of the
  text counting as not one. \<open>prev\<close> is the character before the position, if any.
\<close>

definition word_boundary :: "nat option \<Rightarrow> pystr \<Rightarrow> bool" where
  "word_boundary prev s =
     ((case prev of None \<Rightarrow> False | Some c \<Rightarrow> class_has CWord c)
      \<noteq> (case s of [] \<Rightarrow> False | c # _ \<Rightarrow> class_has CWord c))"

text \<open>
  The lengths of text an atom can take at the start of \<open>s\<close>, in the order in which the
  backtracking matcher tries them: a greedy repetition the longest first, a lazy one the
  shortest first, a choice in the order of its alternatives.
\<close>

fun atom_lengths :: "atom \<Rightarrow> nat option \<Rightarrow> pystr \<Rightarrow> nat list" where
  "atom_lengths (Lit l) prev s = (if prefix l s then [length l] else [])"
| "atom_lengths (Rep0 c) prev s = rev [0 ..< Suc (length (takeWhile (class_has c) s))]"
| "atom_lengths (Rep1 c) prev s = rev [1 ..< Suc (length (takeWhile (class_has c) s))]"
| "atom_lengths (Lazy0 c) prev s = [0 ..< Suc (length (takeWhile (class_has c) s))]"
| "atom_lengths (Alts ls) prev s = map length (filter (\<lambda>l. prefix l s) ls)"
| "atom_lengths (Capture a) prev s = atom_lengths a prev s"
| "atom_lengths WordEdge prev s = (if word_boundary prev s then [0] else [])"

fun captures :: "atom \<Rightarrow> pystr \<Rightarrow> pystr list" where
  "captures (Capture a) txt = [txt]"
| "captures a txt = []"

definition prev_after :: "nat option \<Rightarrow> pystr \<Rightarrow> nat \<Rightarrow> nat option" where
  "prev_after prev s k = (if k = 0 then prev else Some (s ! (k - 1)))"

fun first_of :: "'a option list \<Rightarrow> 'a option" where
  "first_of [] = None"
| "first_of (None # rest) = first_of rest"
| "first_of (Some x # rest) = Some x"

text \<open>
  A sequence of atoms at the start of \<open>s\<close>: the length of the match and the texts of the
  groups, for the first way through that the matcher finds.
\<close>

fun rx_seq :: "atom list \<Rightarrow> nat option \<Rightarrow> pystr \<Rightarrow> (nat \<times> pystr list) option" where
  "rx_seq [] prev s = Some (0, [])"
| "rx_seq (a # rest) prev s =
     first_of (map (\<lambda>k. case rx_seq rest (prev_after prev s k) (drop k s) of
                           None \<Rightarrow> None
                         | Some (n, groups) \<Rightarrow> Some (k + n, captures a (take k s) @ groups))
                 (atom_lengths a prev s))"

definition rx_here :: "regex \<Rightarrow> nat option \<Rightarrow> pystr \<Rightarrow> (nat \<times> pystr list) option" where
  "rx_here r prev s = first_of (map (\<lambda>alternative. rx_seq alternative prev s) r)"

text \<open>
  \<^verbatim>\<open>re.search\<close>: the match at the leftmost position that has one, as the position, the
  length and the groups.
\<close>

fun rx_search :: "regex \<Rightarrow> nat option \<Rightarrow> pystr \<Rightarrow> (nat \<times> nat \<times> pystr list) option" where
  "rx_search r prev [] =
     (case rx_here r prev [] of None \<Rightarrow> None | Some (n, groups) \<Rightarrow> Some (0, n, groups))"
| "rx_search r prev (c # cs) =
     (case rx_here r prev (c # cs) of
        Some (n, groups) \<Rightarrow> Some (0, n, groups)
      | None \<Rightarrow>
          (case rx_search r (Some c) cs of
             None \<Rightarrow> None
           | Some (i, n, groups) \<Rightarrow> Some (Suc i, n, groups)))"

definition re_search :: "regex \<Rightarrow> pystr \<Rightarrow> (nat \<times> nat \<times> pystr list) option" where
  "re_search r s = rx_search r None s"

text \<open>\<^verbatim>\<open>m.group()\<close> and \<^verbatim>\<open>m.groups()\<close> of a match in \<open>s\<close>.\<close>

definition match_group :: "pystr \<Rightarrow> nat \<times> nat \<times> pystr list \<Rightarrow> pystr" where
  "match_group s m = (case m of (i, n, groups) \<Rightarrow> take n (drop i s))"

definition match_groups :: "nat \<times> nat \<times> pystr list \<Rightarrow> pystr list" where
  "match_groups m = (case m of (i, n, groups) \<Rightarrow> groups)"

text \<open>
  \<^verbatim>\<open>re.findall\<close> for a pattern without groups and \<^verbatim>\<open>re.sub\<close>: the matches from left to
  right, none overlapping another. \<open>skip\<close> counts the characters still inside the match
  before.
\<close>

fun rx_findall :: "regex \<Rightarrow> nat option \<Rightarrow> nat \<Rightarrow> pystr \<Rightarrow> pystr list" where
  "rx_findall r prev skip [] =
     (if skip = 0 \<and> rx_here r prev [] \<noteq> None then [[]] else [])"
| "rx_findall r prev skip (c # cs) =
     (if skip > 0 then rx_findall r (Some c) (skip - 1) cs
      else case rx_here r prev (c # cs) of
             None \<Rightarrow> rx_findall r (Some c) 0 cs
           | Some (n, groups) \<Rightarrow> take n (c # cs) # rx_findall r (Some c) (n - 1) cs)"

definition re_findall :: "regex \<Rightarrow> pystr \<Rightarrow> pystr list" where
  "re_findall r s = rx_findall r None 0 s"

fun rx_sub :: "regex \<Rightarrow> pystr \<Rightarrow> nat option \<Rightarrow> nat \<Rightarrow> pystr \<Rightarrow> pystr" where
  "rx_sub r repl prev skip [] =
     (if skip = 0 \<and> rx_here r prev [] \<noteq> None then repl else [])"
| "rx_sub r repl prev skip (c # cs) =
     (if skip > 0 then rx_sub r repl (Some c) (skip - 1) cs
      else case rx_here r prev (c # cs) of
             None \<Rightarrow> c # rx_sub r repl (Some c) 0 cs
           | Some (n, groups) \<Rightarrow>
               if n = 0 then repl @ c # rx_sub r repl (Some c) 0 cs
               else repl @ rx_sub r repl (Some c) (n - 1) cs)"

definition re_sub :: "regex \<Rightarrow> pystr \<Rightarrow> pystr \<Rightarrow> pystr" where
  "re_sub r repl s = rx_sub r repl None 0 s"

section \<open>Plans\<close>

text \<open>The enumeration \<^verbatim>\<open>Intent\<close> of \<^verbatim>\<open>fast_planner.py\<close> and the value of each member.\<close>

datatype intent = SEARCH | CALCULATE | CODE_EXECUTE | FILE_OP | DATA_ANALYSIS | WEB_SCRAPE
  | MULTI_STEP | SIMPLE_QA

fun intent_value :: "intent \<Rightarrow> pystr" where
  "intent_value SEARCH = asc ''search''"
| "intent_value CALCULATE = asc ''calculate''"
| "intent_value CODE_EXECUTE = asc ''code_execute''"
| "intent_value FILE_OP = asc ''file_op''"
| "intent_value DATA_ANALYSIS = asc ''data_analysis''"
| "intent_value WEB_SCRAPE = asc ''web_scrape''"
| "intent_value MULTI_STEP = asc ''multi_step''"
| "intent_value SIMPLE_QA = asc ''simple_qa''"

text \<open>
  The dataclasses \<^verbatim>\<open>Task\<close> and \<^verbatim>\<open>ExecutionPlan\<close>. The fields of a task carry the prefix
  \<open>t_\<close>. The type parameter is what the field \<^verbatim>\<open>params\<close> holds: the planner's functions
  build the dictionary itself, and the executor, where the identity of the dictionary object
  matters, holds its address in a store of dictionary objects.
\<close>

type_synonym pydict = "pystr \<rightharpoonup> pyval"

record 'p task =
  t_id :: pystr
  t_intent :: intent
  t_tool :: pystr
  t_params :: 'p
  t_dependencies :: "pystr set"
  t_priority :: int
  t_estimated_time_ms :: int

record 'p execution_plan =
  tasks :: "'p task list"
  parallel_batches :: "pystr list list"
  total_estimated_ms :: int
  requires_llm_polish :: bool

section \<open>Task planner: intents\<close>

text \<open>
  The planner writes progress messages with \<^verbatim>\<open>print\<close>. The model leaves the messages
  out: writing one is taken to succeed, the rendering of the values it shows included. The
  context dictionary is a record of the keys the planner reads; a key that is absent reads as
  the empty list, as \<^verbatim>\<open>context.get(key, [])\<close> and the tests \<^verbatim>\<open>key in context\<close> of the
  source do.

  An entry of \<^verbatim>\<open>recent_turns\<close> is a dictionary or an object of another class, given by
  the name of the class. The workflow of \<^verbatim>\<open>graph.py\<close> passes the last five messages of the
  conversation there, \<^verbatim>\<open>history_messages[-5:]\<close>, which are message objects
  (\<^verbatim>\<open>HumanMessage\<close>, \<^verbatim>\<open>AIMessage\<close>) and have no attribute \<^verbatim>\<open>get\<close>.
\<close>

datatype turn = TurnDict pydict | TurnObject pystr

record plan_context =
  uploaded_files :: "pystr list"
  recent_turns :: "turn list"
  recent_tool_results :: "pyval list"

text \<open>A pattern of the form \<^verbatim>\<open>a|b|c\<close> with literal alternatives.\<close>

definition words :: "pystr list \<Rightarrow> regex" where
  "words ls = map (\<lambda>l. [Lit l]) ls"

text \<open>
  The table \<^verbatim>\<open>self.intent_patterns\<close>, in the order of the dictionary. The patterns of the
  source are, for each intent:
  \<^item> search: \<^verbatim>\<open>sousuo|chazhao|zhaoyixia|chaxun|search|find\<close> and
    \<^verbatim>\<open>zuixin.*xinxi|.*jinzhan|.*dongtai\<close>;
  \<^item> calculate: \<^verbatim>\<open>\d+\s*[\+\-\*\/]\s*\d+\<close> and \<^verbatim>\<open>jisuan|qiuhe|qiuji|sum|calculate\<close>;
  \<^item> code: \<^verbatim>\<open>yunxing|zhixing|daima|python|javascript\<close> and
    \<^verbatim>\<open>xie.*chengxu|shengcheng.*jiaoben\<close>;
  \<^item> file: \<^verbatim>\<open>duqu|baocun|wenjian|file|csv|txt|json\<close> and \<^verbatim>\<open>dakai|xieru\<close>;
  \<^item> analysis: \<^verbatim>\<open>fenxi|tongji|duibi|qushi|analyze\<close> and
    \<^verbatim>\<open>shuju.*chuli|.*keshihua\<close>;
  \<^item> scrape: \<^verbatim>\<open>zhuaqu|paqu|wangye|scrape|crawl\<close> and \<^verbatim>\<open>tiqu.*neirong\<close>;
  \<^item> several steps: \<^verbatim>\<open>ranhou|jiezhe|bingqie|tongshi\<close> and
    \<^verbatim>\<open>shouxian.*qici|diyi.*dier\<close>;
  where each Chinese word is written here by its reading and below by its code points.
\<close>

definition intent_patterns :: "(intent \<times> regex list) list" where
  "intent_patterns =
     [(SEARCH,
       [words [[0x641C, 0x7D22], [0x67E5, 0x627E], [0x627E, 0x4E00, 0x4E0B], [0x67E5, 0x8BE2],
               asc ''search'', asc ''find''],
        [[Lit [0x6700, 0x65B0], Rep0 CAny, Lit [0x4FE1, 0x606F]],
         [Rep0 CAny, Lit [0x8FDB, 0x5C55]],
         [Rep0 CAny, Lit [0x52A8, 0x6001]]]]),
      (CALCULATE,
       [[[Rep1 CDigit, Rep0 CSpace, Alts [asc ''+'', asc ''-'', asc ''*'', asc ''/''],
          Rep0 CSpace, Rep1 CDigit]],
        words [[0x8BA1, 0x7B97], [0x6C42, 0x548C], [0x6C42, 0x79EF], asc ''sum'',
               asc ''calculate'']]),
      (CODE_EXECUTE,
       [words [[0x8FD0, 0x884C], [0x6267, 0x884C], [0x4EE3, 0x7801], asc ''python'',
               asc ''javascript''],
        [[Lit [0x5199], Rep0 CAny, Lit [0x7A0B, 0x5E8F]],
         [Lit [0x751F, 0x6210], Rep0 CAny, Lit [0x811A, 0x672C]]]]),
      (FILE_OP,
       [words [[0x8BFB, 0x53D6], [0x4FDD, 0x5B58], [0x6587, 0x4EF6], asc ''file'', asc ''csv'',
               asc ''txt'', asc ''json''],
        words [[0x6253, 0x5F00], [0x5199, 0x5165]]]),
      (DATA_ANALYSIS,
       [words [[0x5206, 0x6790], [0x7EDF, 0x8BA1], [0x5BF9, 0x6BD4], [0x8D8B, 0x52BF],
               asc ''analyze''],
        [[Lit [0x6570, 0x636E], Rep0 CAny, Lit [0x5904, 0x7406]],
         [Rep0 CAny, Lit [0x53EF, 0x89C6, 0x5316]]]]),
      (WEB_SCRAPE,
       [words [[0x6293, 0x53D6], [0x722C, 0x53D6], [0x7F51, 0x9875], asc ''scrape'',
               asc ''crawl''],
        [[Lit [0x63D0, 0x53D6], Rep0 CAny, Lit [0x5185, 0x5BB9]]]]),
      (MULTI_STEP,
       [words [[0x7136, 0x540E], [0x63A5, 0x7740], [0x5E76, 0x4E14], [0x540C, 0x65F6]],
        [[Lit [0x9996, 0x5148], Rep0 CAny, Lit [0x5176, 0x6B21]],
         [Lit [0x7B2C, 0x4E00], Rep0 CAny, Lit [0x7B2C, 0x4E8C]]]])]"

text \<open>The table \<^verbatim>\<open>self.intent_to_tool\<close>.\<close>

fun intent_to_tool :: "intent \<Rightarrow> pystr option" where
  "intent_to_tool SEARCH = Some (asc ''intelligent_search'')"
| "intent_to_tool CALCULATE = Some (asc ''code_execution'')"
| "intent_to_tool CODE_EXECUTE = Some (asc ''code_execution'')"
| "intent_to_tool FILE_OP = Some (asc ''file_operations'')"
| "intent_to_tool DATA_ANALYSIS = Some (asc ''data_analysis'')"
| "intent_to_tool WEB_SCRAPE = Some (asc ''file_scraper'')"
| "intent_to_tool MULTI_STEP = None"
| "intent_to_tool SIMPLE_QA = None"

definition image_extensions :: "pystr list" where
  "image_extensions =
     [asc ''.jpg'', asc ''.jpeg'', asc ''.png'', asc ''.gif'', asc ''.webp'', asc ''.bmp'']"

definition document_extensions :: "pystr list" where
  "document_extensions =
     [asc ''.txt'', asc ''.docx'', asc ''.doc'', asc ''.pdf'', asc ''.csv'', asc ''.json'',
      asc ''.py'', asc ''.md'', asc ''.html'', asc ''.css'', asc ''.js'']"

text \<open>
  \<^verbatim>\<open>any(ext in f.lower() for ext in [...])\<close> for the image extensions: the test of both
  \<^verbatim>\<open>_classify_intent\<close> and \<^verbatim>\<open>_decompose_tasks\<close>.
\<close>

definition is_image_file :: "pystr \<Rightarrow> bool" where
  "is_image_file f = list_ex (\<lambda>ext. sublist ext (py_lower f)) image_extensions"

text \<open>
  The loop of \<^verbatim>\<open>_classify_intent\<close> over the uploaded files. An image adds the file
  intent and ends the loop unless the query has one of the words for search, calculate, code
  or execute, and then the loop goes on; any other known file adds the file intent once and
  ends the loop.
\<close>

fun scan_uploaded_files :: "pystr \<Rightarrow> pystr list \<Rightarrow> intent list \<Rightarrow> intent list" where
  "scan_uploaded_files query_lower [] detected_intents = detected_intents"
| "scan_uploaded_files query_lower (file_path # rest) detected_intents =
     (if is_image_file file_path then
        (if \<not> list_ex (\<lambda>keyword. sublist keyword query_lower)
                [[0x641C, 0x7D22], [0x8BA1, 0x7B97], [0x4EE3, 0x7801], [0x6267, 0x884C]]
         then detected_intents @ [FILE_OP]
         else scan_uploaded_files query_lower rest detected_intents)
      else if list_ex (\<lambda>ext. sublist ext (py_lower file_path)) document_extensions then
        (if FILE_OP \<notin> set detected_intents then detected_intents @ [FILE_OP]
         else detected_intents)
      else scan_uploaded_files query_lower rest detected_intents)"

text \<open>The loop over the table of patterns: an intent is added when one of its patterns matches.\<close>

definition matching_intents :: "pystr \<Rightarrow> intent list" where
  "matching_intents query_lower =
     map fst (filter (\<lambda>(intent, patterns).
                        list_ex (\<lambda>pattern. re_search pattern query_lower \<noteq> None) patterns)
                intent_patterns)"

text \<open>
  The words of \<^verbatim>\<open>continuation_keywords\<close>: jixu, jiezhe, ranhou, zai, haiyou, shangmian,
  zhiqian, gangcai.
\<close>

definition continuation_keywords :: "pystr list" where
  "continuation_keywords =
     [[0x7EE7, 0x7EED], [0x63A5, 0x7740], [0x7136, 0x540E], [0x518D], [0x8FD8, 0x6709],
      [0x4E0A, 0x9762], [0x4E4B, 0x524D], [0x521A, 0x624D]]"

text \<open>
  The block of \<^verbatim>\<open>_classify_intent\<close> for a query that continues the conversation. When the
  query has one of the words and \<^verbatim>\<open>recent_turns\<close> is not empty, the block calls
  \<^verbatim>\<open>recent_turns[-1].get("tools_used", [])\<close>: on a dictionary the call returns, and its
  value goes into a message only; on an object without the attribute \<^verbatim>\<open>get\<close> it raises
  \<^verbatim>\<open>AttributeError\<close>. The value is the exception the block raises, if any.
\<close>

definition continuation_check :: "pystr \<Rightarrow> plan_context \<Rightarrow> exn option" where
  "continuation_check query_lower ctx =
     (let is_continuation = list_ex (\<lambda>kw. sublist kw query_lower) continuation_keywords
      in if is_continuation \<and> recent_turns ctx \<noteq> [] then
           (case last (recent_turns ctx) of
              TurnDict d \<Rightarrow> None
            | TurnObject cls \<Rightarrow> Some (Exn (asc ''AttributeError'')))
         else None)"

text \<open>
  \<^verbatim>\<open>FastPlanner._classify_intent\<close>: the uploaded files, the block for a continuation, the
  table of patterns, the removal of the mark for several steps, and the default intent.
\<close>

definition classify_intent :: "pystr \<Rightarrow> plan_context \<Rightarrow> exn + intent list" where
  "classify_intent query ctx =
     (let query_lower = py_lower query;
          detected_intents = scan_uploaded_files query_lower (uploaded_files ctx) []
      in case continuation_check query_lower ctx of
           Some e \<Rightarrow> Inl e
         | None \<Rightarrow>
             (let detected_intents = detected_intents @ matching_intents query_lower;
                  detected_intents = (if MULTI_STEP \<in> set detected_intents
                                      then remove1 MULTI_STEP detected_intents
                                      else detected_intents)
              in Inr (if detected_intents = [] then [SIMPLE_QA] else detected_intents)))"

section \<open>Task planner: parameters and tasks\<close>

text \<open>
  \<^verbatim>\<open>FastPlanner._extract_search_params\<close>. Each noise word is removed where it stands as a
  word of its own, by the pattern \<^verbatim>\<open>\bword\b\<close>; the flag \<^verbatim>\<open>IGNORECASE\<close> changes nothing
  for these words, which have no case. The noise words are, by their readings: sousuo,
  chazhao, zhaoyixia, bangwo, qing.
\<close>

definition noise_words :: "pystr list" where
  "noise_words =
     [[0x641C, 0x7D22], [0x67E5, 0x627E], [0x627E, 0x4E00, 0x4E0B], [0x5E2E, 0x6211], [0x8BF7]]"

definition extract_search_params :: "pystr \<Rightarrow> plan_context \<Rightarrow> pydict" where
  "extract_search_params query ctx =
     (let clean_query = foldl (\<lambda>clean_query word.
                                 re_sub [[WordEdge, Lit word, WordEdge]] [] clean_query)
                          query noise_words;
          clean_query = (if py_strip clean_query \<noteq> [] then py_strip clean_query
                         else py_strip query)
      in [asc ''query'' \<mapsto> PStr clean_query, asc ''max_results'' \<mapsto> PInt 5])"

text \<open>
  The three code templates of \<^verbatim>\<open>_extract_calc_params\<close> and its last resort. The first
  is, for the texts \<open>start\<close> and \<open>end\<close> of the two numbers, the three lines
  \<^verbatim>\<open># jisuan {start} dao {end} de he\<close>, \<^verbatim>\<open>result = sum(range({start}, {end}+1))\<close> and
  \<^verbatim>\<open>print(f"{start} dao {end} de he shi: {result}")\<close>.
\<close>

definition range_sum_code :: "pystr \<Rightarrow> pystr \<Rightarrow> pystr" where
  "range_sum_code start end =
     asc ''# '' @ [0x8BA1, 0x7B97] @ asc '' '' @ start @ asc '' '' @ [0x5230] @ asc '' '' @ end
     @ asc '' '' @ [0x7684, 0x548C, 0xA] @ asc ''result = sum(range('' @ start @ asc '', '' @ end
     @ asc ''+1))'' @ [0xA] @ asc ''print(f'' @ [0x22] @ start @ asc '' '' @ [0x5230] @ asc '' ''
     @ end @ asc '' '' @ [0x7684, 0x548C, 0x662F] @ asc '': {result}'' @ [0x22] @ asc '')''"

definition expression_code :: "pystr \<Rightarrow> pystr" where
  "expression_code expr =
     asc ''# '' @ [0x8BA1, 0x7B97] @ asc '': '' @ expr @ [0xA] @ asc ''result = '' @ expr @ [0xA]
     @ asc ''print(f'' @ [0x22, 0x8BA1, 0x7B97, 0x7ED3, 0x679C] @ asc '': {result}'' @ [0x22]
     @ asc '')''"

definition list_sum_code :: "pystr list \<Rightarrow> pystr" where
  "list_sum_code numbers =
     asc ''# '' @ [0x6C42, 0x548C, 0xA] @ asc ''result = sum(['' @ py_join (asc '', '') numbers
     @ asc ''])'' @ [0xA] @ asc ''print(f'' @ [0x22, 0x7ED3, 0x679C] @ asc '': {result}'' @ [0x22]
     @ asc '')''"

definition unknown_calc_code :: "pystr \<Rightarrow> pystr" where
  "unknown_calc_code query =
     asc ''print('' @ [0x27, 0x65E0, 0x6CD5, 0x8BC6, 0x522B, 0x7684, 0x8BA1, 0x7B97, 0x4EFB, 0x52A1]
     @ asc '': '' @ query @ [0x27] @ asc '')''"

text \<open>
  \<^verbatim>\<open>FastPlanner._extract_calc_params\<close>. The patterns are
  \<^verbatim>\<open>(\d+)\s*(?:dao|zhi|~|-)\s*(\d+)\<close> for a range, \<^verbatim>\<open>[\d\+\-\*\/\(\)\s]+\<close> for an
  expression and \<^verbatim>\<open>\d+\<close> for the numbers; the words that ask for a sum are he, qiuhe,
  \<^verbatim>\<open>sum\<close> and jia.
\<close>

definition range_pattern :: regex where
  "range_pattern =
     [[Capture (Rep1 CDigit), Rep0 CSpace, Alts [[0x5230], [0x81F3], asc ''~'', asc ''-''],
       Rep0 CSpace, Capture (Rep1 CDigit)]]"

definition expression_pattern :: regex where
  "expression_pattern = [[Rep1 (CUnion CDigit (CUnion (CSet (asc ''+-*/()'')) CSpace))]]"

definition extract_calc_params :: "pystr \<Rightarrow> plan_context \<Rightarrow> pydict" where
  "extract_calc_params query ctx =
     (let range_match = re_search range_pattern query;
          asks_sum = list_ex (\<lambda>kw. sublist kw query)
                       [[0x548C], [0x6C42, 0x548C], asc ''sum'', [0x52A0]]
      in case (if asks_sum then range_match else None) of
           Some m \<Rightarrow>
             [asc ''code'' \<mapsto> PStr (range_sum_code (match_groups m ! 0) (match_groups m ! 1))]
         | None \<Rightarrow>
             (case re_search expression_pattern query of
                Some math_expr \<Rightarrow>
                  [asc ''code'' \<mapsto> PStr (expression_code (py_strip (match_group query math_expr)))]
              | None \<Rightarrow>
                  (let numbers = re_findall [[Rep1 CDigit]] query in
                   if length numbers \<ge> 2 then [asc ''code'' \<mapsto> PStr (list_sum_code numbers)]
                   else [asc ''code'' \<mapsto> PStr (unknown_calc_code query)])))"

text \<open>
  \<^verbatim>\<open>FastPlanner._extract_file_params\<close>. The pattern for a file name in the query is
  \<^verbatim>\<open>[a-zA-Z0-9_\-]+\.(csv|txt|json|xlsx|pdf|docx|doc)\<close>; the words for writing are baocun,
  xieru and \<^verbatim>\<open>write\<close>, the words for reading are duqu, dakai, chakan and \<^verbatim>\<open>read\<close>.
\<close>

definition file_name_pattern :: regex where
  "file_name_pattern =
     [[Rep1 (CUnion (CRange 0x61 0x7A) (CUnion (CRange 0x41 0x5A) (CUnion (CRange 0x30 0x39)
               (CSet (asc ''_-''))))),
       Lit (asc ''.''),
       Capture (Alts [asc ''csv'', asc ''txt'', asc ''json'', asc ''xlsx'', asc ''pdf'',
                      asc ''docx'', asc ''doc''])]]"

definition extract_file_params :: "pystr \<Rightarrow> plan_context \<Rightarrow> pydict" where
  "extract_file_params query ctx =
     (let file_path = (case uploaded_files ctx of [] \<Rightarrow> None | first # rest \<Rightarrow> Some first);
          file_path =
            (case file_path of
               Some p \<Rightarrow> (if p \<noteq> [] then Some p else
                           map_option (\<lambda>m. asc ''data/uploads/'' @ match_group query m)
                             (re_search file_name_pattern query))
             | None \<Rightarrow> map_option (\<lambda>m. asc ''data/uploads/'' @ match_group query m)
                         (re_search file_name_pattern query));
          writes = list_ex (\<lambda>word. sublist word query)
                     [[0x4FDD, 0x5B58], [0x5199, 0x5165], asc ''write''];
          reads = list_ex (\<lambda>word. sublist word query)
                    [[0x8BFB, 0x53D6], [0x6253, 0x5F00], [0x67E5, 0x770B], asc ''read''];
          operation =
            (case file_path of
               Some p \<Rightarrow> (if p \<noteq> [] then (if writes then asc ''write'' else asc ''read'')
                           else if reads then asc ''read''
                           else if writes then asc ''write'' else asc ''list'')
             | None \<Rightarrow> (if reads then asc ''read''
                         else if writes then asc ''write'' else asc ''list''))
      in [asc ''operation'' \<mapsto> PStr operation,
          asc ''file_path'' \<mapsto>
            PStr (case file_path of
                    Some p \<Rightarrow> (if p \<noteq> [] then p else asc ''data/temp.txt'')
                  | None \<Rightarrow> asc ''data/temp.txt'')])"

text \<open>
  \<^verbatim>\<open>FastPlanner._extract_analysis_params\<close>: a fixed script that reads the first uploaded
  file. The script has the text of \<^verbatim>\<open>file_path\<close> between quotes, which is the path of the
  file, or \<^verbatim>\<open>None\<close> when there is no file.
\<close>

definition extract_analysis_params :: "pystr \<Rightarrow> plan_context \<Rightarrow> pydict" where
  "extract_analysis_params query ctx =
     (let file_path = (case uploaded_files ctx of [] \<Rightarrow> None | first # rest \<Rightarrow> Some first);
          code = [0xA] @ asc ''import pandas as pd'' @ [0xA] @ asc ''df = pd.read_csv('' @ [0x27]
                 @ (case file_path of None \<Rightarrow> asc ''None'' | Some path \<Rightarrow> path)
                 @ [0x27] @ asc '')'' @ [0xA] @ asc ''print(df.describe())''
                 @ [0xA] @ asc ''print(df.head())'' @ [0xA]
      in [asc ''code'' \<mapsto> PStr (py_strip code)])"

text \<open>The table \<^verbatim>\<open>self.param_extractors\<close>, with the empty dictionary as its default.\<close>

fun param_extractor :: "intent \<Rightarrow> pystr \<Rightarrow> plan_context \<Rightarrow> pydict" where
  "param_extractor SEARCH = extract_search_params"
| "param_extractor CALCULATE = extract_calc_params"
| "param_extractor FILE_OP = extract_file_params"
| "param_extractor DATA_ANALYSIS = extract_analysis_params"
| "param_extractor intent = (\<lambda>q c. Map.empty)"

fun get_priority :: "intent \<Rightarrow> int" where
  "get_priority FILE_OP = 10"
| "get_priority SEARCH = 8"
| "get_priority WEB_SCRAPE = 8"
| "get_priority DATA_ANALYSIS = 5"
| "get_priority CODE_EXECUTE = 5"
| "get_priority CALCULATE = 3"
| "get_priority intent = 5"

definition estimate_task_time :: "pystr \<Rightarrow> int" where
  "estimate_task_time tool_name =
     (if tool_name = asc ''intelligent_search'' then 2000
      else if tool_name = asc ''file_operations'' then 100
      else if tool_name = asc ''code_execution'' then 1500
      else if tool_name = asc ''data_analysis'' then 2000
      else if tool_name = asc ''file_scraper'' then 3000
      else 1000)"

text \<open>The id \<^verbatim>\<open>f"task_{task_id}"\<close>.\<close>

definition task_name :: "nat \<Rightarrow> pystr" where
  "task_name task_id = asc ''task_'' @ nat_str task_id"

text \<open>
  The first loop of \<^verbatim>\<open>_decompose_tasks\<close>: one task for the tool \<^verbatim>\<open>vision_analysis\<close> for
  each uploaded image, with the query as the question, without the notes
  \<^verbatim>\<open>[yonghu shangchuan le wenjian: ...]\<close> that the pattern \<^verbatim>\<open>\[...:.*?\]\<close> removes.
\<close>

fun vision_tasks :: "pystr \<Rightarrow> pystr list \<Rightarrow> nat \<Rightarrow> pydict task list" where
  "vision_tasks query [] task_id = []"
| "vision_tasks query (img_path # rest) task_id =
     (let clean_query =
            py_strip (re_sub [[Lit (asc ''['' @ [0x7528, 0x6237, 0x4E0A, 0x4F20, 0x4E86, 0x6587,
                                      0x4EF6] @ asc '':''), Lazy0 CAny, Lit (asc '']'')]]
                        [] query);
          question = (if clean_query \<noteq> [] then PStr clean_query else PNone)
      in \<lparr>t_id = task_name task_id, t_intent = FILE_OP, t_tool = asc ''vision_analysis'',
          t_params = [asc ''image_path'' \<mapsto> PStr img_path, asc ''question'' \<mapsto> question],
          t_dependencies = {}, t_priority = 1, t_estimated_time_ms = 8000\<rparr>
         # vision_tasks query rest (Suc task_id))"

text \<open>
  The second loop of \<^verbatim>\<open>_decompose_tasks\<close>, over the intents: the default intent is
  skipped, the file intent is skipped when there is an image, and so is an intent without a
  tool.
\<close>

fun intent_tasks ::
    "pystr \<Rightarrow> plan_context \<Rightarrow> bool \<Rightarrow> intent list \<Rightarrow> nat \<Rightarrow> pydict task list" where
  "intent_tasks query ctx has_images [] task_id = []"
| "intent_tasks query ctx has_images (intent # rest) task_id =
     (if intent = SIMPLE_QA then intent_tasks query ctx has_images rest task_id
      else if intent = FILE_OP \<and> has_images then intent_tasks query ctx has_images rest task_id
      else case intent_to_tool intent of
             None \<Rightarrow> intent_tasks query ctx has_images rest task_id
           | Some tool_name \<Rightarrow>
               \<lparr>t_id = task_name task_id, t_intent = intent, t_tool = tool_name,
                t_params = param_extractor intent query ctx,
                t_dependencies = {}, t_priority = get_priority intent,
                t_estimated_time_ms = estimate_task_time tool_name\<rparr>
               # intent_tasks query ctx has_images rest (Suc task_id))"

text \<open>\<^verbatim>\<open>FastPlanner._decompose_tasks\<close>.\<close>

definition decompose_tasks :: "pystr \<Rightarrow> intent list \<Rightarrow> plan_context \<Rightarrow> pydict task list" where
  "decompose_tasks query intents ctx =
     (let image_files = filter is_image_file (uploaded_files ctx) in
      vision_tasks query image_files 0
      @ intent_tasks query ctx (image_files \<noteq> []) intents (length image_files))"

section \<open>Task planner: dependencies and batches\<close>

text \<open>
  \<^verbatim>\<open>FastPlanner._analyze_dependencies\<close>. The source adds to the set of each analysis task in
  place; the model returns the list of the updated tasks. The inner loop reads only the
  intent and the id of the other tasks, which the loop never changes.
\<close>

definition analyze_dependencies :: "'p task list \<Rightarrow> 'p task list" where
  "analyze_dependencies task_list =
     map (\<lambda>task.
            if t_intent task = DATA_ANALYSIS then
              task\<lparr>t_dependencies :=
                     foldl (\<lambda>deps other.
                              if t_intent other = FILE_OP \<and> t_id other \<noteq> t_id task
                              then insert (t_id other) deps else deps)
                       (t_dependencies task) task_list\<rparr>
            else task)
       task_list"

text \<open>
  The dictionary \<^verbatim>\<open>{t.id: t for t in tasks}\<close>: of two tasks with the same id the later one
  stays.
\<close>

definition task_dict :: "'p task list \<Rightarrow> (pystr \<rightharpoonup> 'p task)" where
  "task_dict task_list = map_of (rev (map (\<lambda>t. (t_id t, t)) task_list))"

text \<open>
  The test of \<^verbatim>\<open>_schedule_tasks\<close> for a task that may run, and the sort key. Both read
  \<^verbatim>\<open>task_dict[task_id]\<close> for an id taken from \<^verbatim>\<open>remaining\<close>, which holds keys of the
  dictionary only, so the lookup finds a task.
\<close>

definition is_ready :: "(pystr \<rightharpoonup> 'p task) \<Rightarrow> pystr set \<Rightarrow> pystr \<Rightarrow> bool" where
  "is_ready td completed task_id =
     (case td task_id of
        None \<Rightarrow> False
      | Some task \<Rightarrow> t_dependencies task = {} \<or> t_dependencies task \<subseteq> completed)"

definition priority_of :: "(pystr \<rightharpoonup> 'p task) \<Rightarrow> pystr \<Rightarrow> int" where
  "priority_of td task_id = (case td task_id of None \<Rightarrow> 0 | Some task \<Rightarrow> t_priority task)"

text \<open>
  One round of the \<^verbatim>\<open>while\<close> loop of \<^verbatim>\<open>_schedule_tasks\<close>, on the pair of
  \<^verbatim>\<open>remaining\<close> and \<^verbatim>\<open>batches\<close>. The parameter \<open>order\<close> is the order in which Python
  iterates the set \<^verbatim>\<open>remaining\<close>. \<^verbatim>\<open>ready.sort(key=..., reverse=True)\<close> is stable: it
  sorts by falling priority and keeps the order of ids with the same priority, as the
  insertion sort \<open>sort_key\<close> does on the negated priority.
\<close>

definition schedule_step ::
    "(pystr set \<Rightarrow> pystr list) \<Rightarrow> (pystr \<rightharpoonup> 'p task) \<Rightarrow> pystr set
      \<Rightarrow> pystr set \<times> pystr list list \<Rightarrow> pystr set \<times> pystr list list" where
  "schedule_step order td keys = (\<lambda>(remaining, batches).
     (let completed = keys - remaining;
          ready = filter (is_ready td completed) (order remaining);
          ready = (if ready = [] then order remaining else ready);
          ready = sort_key (\<lambda>tid. - priority_of td tid) ready
      in (remaining - set ready, batches @ [ready])))"

text \<open>
  \<^verbatim>\<open>FastPlanner._schedule_tasks\<close>. The loop runs while \<^verbatim>\<open>remaining\<close> is not empty; the
  value is \<open>None\<close> when it never ends.
\<close>

definition schedule_tasks ::
    "(pystr set \<Rightarrow> pystr list) \<Rightarrow> 'p task list \<Rightarrow> pystr list list option" where
  "schedule_tasks order task_list =
     (if task_list = [] then Some []
      else map_option snd
             (while_option (\<lambda>(remaining, batches). remaining \<noteq> {})
                (schedule_step order (task_dict task_list) (set (map t_id task_list)))
                (set (map t_id task_list), [])))"

text \<open>
  \<^verbatim>\<open>FastPlanner._estimate_total_time\<close>: the sum over the batches of the longest estimate of
  the batch. \<^verbatim>\<open>max\<close> reads the estimates of the batch in order: an id that is not a key of
  the dictionary raises \<^verbatim>\<open>KeyError\<close>, and an empty batch raises \<^verbatim>\<open>ValueError\<close>.
\<close>

fun estimate_loop :: "(pystr \<rightharpoonup> 'p task) \<Rightarrow> pystr list list \<Rightarrow> int \<Rightarrow> exn + int" where
  "estimate_loop td [] total_ms = Inr total_ms"
| "estimate_loop td (batch # rest) total_ms =
     (case those (map (\<lambda>tid. map_option t_estimated_time_ms (td tid)) batch) of
        None \<Rightarrow> Inl (Exn (asc ''KeyError''))
      | Some [] \<Rightarrow> Inl (Exn (asc ''ValueError''))
      | Some (x # xs) \<Rightarrow> estimate_loop td rest (total_ms + fold max xs x))"

definition estimate_total_time :: "pystr list list \<Rightarrow> 'p task list \<Rightarrow> exn + int" where
  "estimate_total_time batches task_list = estimate_loop (task_dict task_list) batches 0"

text \<open>
  The property of a list of batches that the claims about scheduling state: every
  dependency of every task is in a batch before the batch of the task, and the batches hold
  exactly the ids of the tasks, each id once.
\<close>

definition valid_schedule :: "'p task list \<Rightarrow> pystr list list \<Rightarrow> bool" where
  "valid_schedule task_list batches =
     ((\<forall>t \<in> set task_list. \<forall>d \<in> t_dependencies t.
         \<exists>i < length batches. \<exists>j < i. t_id t \<in> set (batches ! i) \<and> d \<in> set (batches ! j))
      \<and> set (concat batches) = t_id ` set task_list
      \<and> distinct (concat batches))"

text \<open>
  The dependency graph of a list of tasks: an edge from each dependency to the task that
  has it.
\<close>

definition dependency_graph :: "'p task list \<Rightarrow> (pystr \<times> pystr) set" where
  "dependency_graph task_list =
     {(d, t_id t) | d t. t \<in> set task_list \<and> d \<in> t_dependencies t}"

text \<open>
  An iteration order that behaves as Python's on the sets of ids of \<open>keys\<close>: it lists the
  members of the set, each once.
\<close>

definition lists_sets :: "(pystr set \<Rightarrow> pystr list) \<Rightarrow> pystr set \<Rightarrow> bool" where
  "lists_sets order keys = (\<forall>S. S \<subseteq> keys \<longrightarrow> set (order S) = S \<and> distinct (order S))"

text \<open>
  The invariant of the loop of \<^verbatim>\<open>_schedule_tasks\<close>: \<^verbatim>\<open>remaining\<close> holds keys only, the
  batches hold the other keys, each once, no batch is empty, and the dependencies of every
  task of a batch are in the batches before it. \<open>td_graph\<close> is the dependency graph read
  from the dictionary of the tasks.
\<close>

definition batches_ordered :: "(pystr \<rightharpoonup> 'p task) \<Rightarrow> pystr list list \<Rightarrow> bool" where
  "batches_ordered td batches =
     (\<forall>i < length batches. \<forall>tid \<in> set (batches ! i). \<forall>t. td tid = Some t \<longrightarrow>
        t_dependencies t \<subseteq> set (concat (take i batches)))"

definition schedule_inv ::
    "(pystr \<rightharpoonup> 'p task) \<Rightarrow> pystr set \<Rightarrow> pystr set \<times> pystr list list \<Rightarrow> bool" where
  "schedule_inv td keys = (\<lambda>(remaining, batches).
     remaining \<subseteq> keys \<and> set (concat batches) = keys - remaining \<and> distinct (concat batches)
     \<and> [] \<notin> set batches \<and> batches_ordered td batches)"

definition td_graph :: "(pystr \<rightharpoonup> 'p task) \<Rightarrow> (pystr \<times> pystr) set" where
  "td_graph td = {(d, tid) | d tid t. td tid = Some t \<and> d \<in> t_dependencies t}"

section \<open>Task planner: the plan\<close>

text \<open>\<^verbatim>\<open>FastPlanner._needs_polish\<close>: every query needs the final generator.\<close>

definition needs_polish :: "intent list \<Rightarrow> bool" where
  "needs_polish intents = True"

text \<open>
  \<^verbatim>\<open>FastPlanner.plan\<close>. The parameters \<open>start_time\<close> and \<open>end_time\<close> are the two readings
  of the clock, in milliseconds; the elapsed time goes into a message only. The value is
  \<open>None\<close> when the scheduling loop never ends, \<open>Some (Inl e)\<close> when a step raises the
  exception \<open>e\<close>, which no step catches, and \<open>Some (Inr p)\<close> when \<^verbatim>\<open>plan\<close> returns the
  plan \<open>p\<close>.
\<close>

definition plan ::
    "(pystr set \<Rightarrow> pystr list) \<Rightarrow> int \<Rightarrow> int \<Rightarrow> pystr \<Rightarrow> plan_context
      \<Rightarrow> (exn + pydict execution_plan) option" where
  "plan order start_time end_time user_query ctx =
     (case classify_intent user_query ctx of
        Inl e \<Rightarrow> Some (Inl e)
      | Inr intents \<Rightarrow>
          (let task_list = decompose_tasks user_query intents ctx;
               task_list = analyze_dependencies task_list
           in case schedule_tasks order task_list of
                None \<Rightarrow> None
              | Some batches \<Rightarrow>
                  (case estimate_total_time batches task_list of
                     Inl e \<Rightarrow> Some (Inl e)
                   | Inr total_time \<Rightarrow>
                       (let elapsed_ms = end_time - start_time
                        in Some (Inr \<lparr>tasks = task_list, parallel_batches = batches,
                                      total_estimated_ms = total_time,
                                      requires_llm_polish = needs_polish intents\<rparr>)))))"

text \<open>
  The tasks of the plan: the first three steps of \<^verbatim>\<open>plan\<close>, which do not depend on the
  order of iteration; there is none when the first step raises.
\<close>

definition planned_tasks :: "pystr \<Rightarrow> plan_context \<Rightarrow> pydict task list" where
  "planned_tasks user_query ctx =
     (case classify_intent user_query ctx of
        Inl e \<Rightarrow> []
      | Inr intents \<Rightarrow> analyze_dependencies (decompose_tasks user_query intents ctx))"




section \<open>Results of tool calls\<close>

text \<open>
  The dataclass \<^verbatim>\<open>ToolResult\<close> of \<^verbatim>\<open>parallel_executor.py\<close>. The field names carry the
  prefix \<open>r_\<close>, since \<^verbatim>\<open>Task\<close> has fields of the same names.
\<close>

record tool_result =
  r_task_id :: pystr
  r_tool :: pystr
  r_success :: bool
  r_output :: pyval
  r_error :: "pystr option"
  r_elapsed_ms :: int

text \<open>
  The result dictionary \<^verbatim>\<open>Dict[str, ToolResult]\<close> is kept as an association list in
  insertion order, which is the order \<^verbatim>\<open>results.values()\<close> follows.
\<close>

type_synonym results = "(pystr \<times> tool_result) list"

section \<open>Parallel executor\<close>

subsection \<open>The environment of the executor\<close>

text \<open>
  Dictionary objects live in a store, addressed by their position; \<^verbatim>\<open>d.copy()\<close> allocates a
  new object with the content of \<open>d\<close>, and \<^verbatim>\<open>d[k] = v\<close> writes to the object at the address
  of \<open>d\<close>.
\<close>

type_synonym addr = nat

type_synonym store = "pydict list"

definition dict_copy :: "store \<Rightarrow> addr \<Rightarrow> store \<times> addr" where
  "dict_copy h a = (h @ [h ! a], length h)"

definition dict_set :: "store \<Rightarrow> addr \<Rightarrow> pystr \<Rightarrow> pyval \<Rightarrow> store" where
  "dict_set h a k v = h[a := (h ! a)(k \<mapsto> v)]"

text \<open>
  What \<^verbatim>\<open>pathlib\<close> answers on the machine the executor runs on, for the text of a path:
  \<^verbatim>\<open>str(Path(p))\<close>, \<^verbatim>\<open>Path(p).exists()\<close>, \<^verbatim>\<open>Path(p).is_absolute()\<close> and
  \<^verbatim>\<open>str(Path(p).resolve())\<close>.
\<close>

record filesystem =
  path_str :: "pystr \<Rightarrow> pystr"
  path_exists :: "pystr \<Rightarrow> bool"
  path_is_absolute :: "pystr \<Rightarrow> bool"
  path_resolve :: "pystr \<Rightarrow> pystr"

text \<open>
  An exception, by the name of its type and the text \<^verbatim>\<open>str(e)\<close>. A tool is an opaque
  callable: the call either returns a value or raises, and the executor's clock measures the
  given number of milliseconds from the start of \<^verbatim>\<open>_execute_task\<close> to the end of the call.
  The registry maps a tool name to its callable.
\<close>

record py_exc =
  exc_type :: pystr
  exc_msg :: pystr

datatype tool_run = Returns pyval int | Raises py_exc int

type_synonym tool_func = "pydict \<Rightarrow> tool_run"

type_synonym registry = "pystr \<rightharpoonup> tool_func"

text \<open>The executor object: the attributes \<^verbatim>\<open>__init__\<close> sets, and the module's constants.\<close>

record executor =
  max_workers :: nat
  default_timeout :: int

definition DEFAULT_TIMEOUT :: int where
  "DEFAULT_TIMEOUT = 60"

definition SEARCH_TIMEOUT :: int where
  "SEARCH_TIMEOUT = 30"

definition FILE_TIMEOUT :: int where
  "FILE_TIMEOUT = 10"

definition parallel_executor :: executor where
  "parallel_executor = \<lparr>max_workers = 10, default_timeout = DEFAULT_TIMEOUT\<rparr>"

subsection \<open>Parameter resolution\<close>

text \<open>\<^verbatim>\<open>s.strip(chars)\<close>: the characters of \<open>chars\<close> are removed from both ends.\<close>

definition py_strip_chars :: "pystr \<Rightarrow> pystr \<Rightarrow> pystr" where
  "py_strip_chars chars s =
     rev (dropWhile (\<lambda>c. c \<in> set chars) (rev (dropWhile (\<lambda>c. c \<in> set chars) s)))"

text \<open>
  The two path blocks of \<^verbatim>\<open>_resolve_params\<close>, writing to the dictionary at \<open>p\<close>. A path
  that does not exist is resolved; the block for \<^verbatim>\<open>file_path\<close> has the same two steps in
  both branches of its test for an absolute path.
\<close>

definition normalize_image_path :: "filesystem \<Rightarrow> store \<Rightarrow> addr \<Rightarrow> store" where
  "normalize_image_path fs h p =
     (case (h ! p) (asc ''image_path'') of
        Some (PStr image_path) \<Rightarrow>
          (let image_path = py_strip_chars [0x27, 0x22] image_path;
               path = (if \<not> path_exists fs image_path then path_resolve fs image_path
                       else path_str fs image_path)
           in dict_set h p (asc ''image_path'') (PStr path))
      | _ \<Rightarrow> h)"

definition normalize_file_path :: "filesystem \<Rightarrow> store \<Rightarrow> addr \<Rightarrow> store" where
  "normalize_file_path fs h p =
     (case (h ! p) (asc ''file_path'') of
        Some (PStr file_path) \<Rightarrow>
          (let file_path = py_strip_chars [0x27, 0x22] file_path in
           if path_is_absolute fs file_path then
             (let path = (if \<not> path_exists fs file_path then path_resolve fs file_path
                          else path_str fs file_path)
              in dict_set h p (asc ''file_path'') (PStr path))
           else
             (let path = (if \<not> path_exists fs file_path then path_resolve fs file_path
                          else path_str fs file_path)
              in dict_set h p (asc ''file_path'') (PStr path)))
      | _ \<Rightarrow> h)"

text \<open>
  The body of the loop over \<^verbatim>\<open>task.dependencies\<close>, for one dependency. The test for the
  operation reads \<^verbatim>\<open>task.params\<close>, the task's own dictionary, and the writes go to
  \<^verbatim>\<open>params\<close>, the dictionary at \<open>p\<close>.
\<close>

definition inject_dependency ::
    "results \<Rightarrow> addr task \<Rightarrow> addr \<Rightarrow> store \<Rightarrow> pystr \<Rightarrow> store" where
  "inject_dependency previous_results task p h dep_id =
     (case map_of previous_results dep_id of
        None \<Rightarrow> h
      | Some result \<Rightarrow>
          if r_success result then
            if intent_value (t_intent task) = asc ''data_analysis'' then
              dict_set h p (asc ''data'') (r_output result)
            else if intent_value (t_intent task) = asc ''file_op'' then
              if (h ! t_params task) (asc ''operation'') = Some (PStr (asc ''write'')) then
                dict_set h p (asc ''content'') (r_output result)
              else h
            else h
          else h)"

text \<open>
  \<^verbatim>\<open>ParallelExecutor._resolve_params\<close>. Python iterates a set in an order that its hash table
  fixes; the model takes that order as the parameter \<open>order\<close>, which lists a set.
\<close>

definition resolve_params ::
    "filesystem \<Rightarrow> (pystr set \<Rightarrow> pystr list) \<Rightarrow> store \<Rightarrow> addr task \<Rightarrow> results \<Rightarrow> store \<times> addr" where
  "resolve_params fs order h task previous_results =
     (let (h, params) = dict_copy h (t_params task);
          h = normalize_image_path fs h params;
          h = normalize_file_path fs h params;
          h = (if t_dependencies task \<noteq> {} then
                 foldl (inject_dependency previous_results task params) h
                   (order (t_dependencies task))
               else h)
      in (h, params))"

subsection \<open>Running tasks\<close>

definition get_timeout :: "executor \<Rightarrow> 'p task \<Rightarrow> int" where
  "get_timeout self task =
     (if intent_value (t_intent task) = asc ''search'' then SEARCH_TIMEOUT
      else if intent_value (t_intent task) \<in> {asc ''file_op'', asc ''data_analysis''} then FILE_TIMEOUT
      else default_timeout self)"

text \<open>
  \<^verbatim>\<open>ParallelExecutor._execute_task\<close>. The whole body is inside \<^verbatim>\<open>try\<close> with a handler for
  \<^verbatim>\<open>Exception\<close>, so the call returns a result on every path; the value is kept as the outcome
  of the future that runs it, \<open>Inr\<close> for a returned result and \<open>Inl\<close> for a raised exception.
\<close>

definition execute_task ::
    "filesystem \<Rightarrow> (pystr set \<Rightarrow> pystr list) \<Rightarrow> registry \<Rightarrow> store \<Rightarrow> addr task \<Rightarrow> results
      \<Rightarrow> store \<times> (py_exc + tool_result)" where
  "execute_task fs order registry h task previous_results =
     (case registry (t_tool task) of
        None \<Rightarrow>
          (h, Inr \<lparr>r_task_id = t_id task, r_tool = t_tool task, r_success = False, r_output = PNone,
                   r_error = Some ([0x5DE5, 0x5177] @ asc '' '' @ t_tool task @ asc '' ''
                                   @ [0x672A, 0x627E, 0x5230]),
                   r_elapsed_ms = 0\<rparr>)
      | Some tool_func \<Rightarrow>
          (let (h, params) = resolve_params fs order h task previous_results in
           case tool_func (h ! params) of
             Returns output elapsed_ms \<Rightarrow>
               (h, Inr \<lparr>r_task_id = t_id task, r_tool = t_tool task, r_success = True,
                        r_output = output, r_error = None, r_elapsed_ms = elapsed_ms\<rparr>)
           | Raises e elapsed_ms \<Rightarrow>
               (h, Inr \<lparr>r_task_id = t_id task, r_tool = t_tool task, r_success = False,
                        r_output = PNone, r_error = Some (exc_msg e),
                        r_elapsed_ms = elapsed_ms\<rparr>)))"

text \<open>
  \<^verbatim>\<open>ParallelExecutor._execute_batch\<close>. Every task of the batch is submitted to the pool, and
  \<^verbatim>\<open>as_completed\<close>, called without a timeout, hands out each future once it is done; so
  \<^verbatim>\<open>future.result(timeout=...)\<close> has nothing to wait for and gives the outcome of
  \<^verbatim>\<open>_execute_task\<close>: its value, or the exception it raised for the two handlers. The tasks of
  a batch read the same \<^verbatim>\<open>previous_results\<close> and each writes to its own copy of its
  parameters, so the model runs them one after the other, in the order of submission; the
  order of completion decides only the order of the keys in the dictionary returned.
\<close>

definition collect_result :: "executor \<Rightarrow> addr task \<Rightarrow> py_exc + tool_result \<Rightarrow> tool_result" where
  "collect_result self task outcome =
     (case outcome of
        Inr result \<Rightarrow> result
      | Inl e \<Rightarrow>
          if exc_type e = asc ''TimeoutError'' then
            \<lparr>r_task_id = t_id task, r_tool = t_tool task, r_success = False, r_output = PNone,
             r_error = Some ([0x4EFB, 0x52A1, 0x8D85, 0x65F6] @ asc '' (''
                             @ int_str (get_timeout self task) @ [0x79D2] @ asc '')''),
             r_elapsed_ms = get_timeout self task * 1000\<rparr>
          else
            \<lparr>r_task_id = t_id task, r_tool = t_tool task, r_success = False, r_output = PNone,
             r_error = Some (exc_type e @ asc '': '' @ exc_msg e),
             r_elapsed_ms = 0\<rparr>)"

fun execute_batch_loop ::
    "executor \<Rightarrow> filesystem \<Rightarrow> (pystr set \<Rightarrow> pystr list) \<Rightarrow> registry \<Rightarrow> results
      \<Rightarrow> addr task list \<Rightarrow> store \<times> results \<Rightarrow> store \<times> results" where
  "execute_batch_loop self fs order registry previous_results [] (h, results) = (h, results)"
| "execute_batch_loop self fs order registry previous_results (task # rest) (h, results) =
     (let (h, outcome) = execute_task fs order registry h task previous_results;
          results = AList.update (t_id task) (collect_result self task outcome) results
      in execute_batch_loop self fs order registry previous_results rest (h, results))"

definition execute_batch ::
    "executor \<Rightarrow> filesystem \<Rightarrow> (pystr set \<Rightarrow> pystr list) \<Rightarrow> registry \<Rightarrow> store
      \<Rightarrow> addr task list \<Rightarrow> results \<Rightarrow> store \<times> results" where
  "execute_batch self fs order registry h batch_tasks previous_results =
     execute_batch_loop self fs order registry previous_results batch_tasks (h, [])"

text \<open>\<^verbatim>\<open>results.update(batch_results)\<close>.\<close>

definition dict_update :: "results \<Rightarrow> results \<Rightarrow> results" where
  "dict_update results batch_results =
     foldl (\<lambda>acc (k, v). AList.update k v acc) results batch_results"

text \<open>\<^verbatim>\<open>ParallelExecutor.execute\<close>: the batches in order, each with the results so far.\<close>

fun execute_loop ::
    "executor \<Rightarrow> filesystem \<Rightarrow> (pystr set \<Rightarrow> pystr list) \<Rightarrow> registry \<Rightarrow> addr execution_plan
      \<Rightarrow> pystr list list \<Rightarrow> store \<times> results \<Rightarrow> store \<times> results" where
  "execute_loop self fs order registry exec_plan [] (h, results) = (h, results)"
| "execute_loop self fs order registry exec_plan (batch # rest) (h, results) =
     (let (h, batch_results) =
            execute_batch self fs order registry h
              (filter (\<lambda>t. t_id t \<in> set batch) (tasks exec_plan)) results;
          results = dict_update results batch_results
      in execute_loop self fs order registry exec_plan rest (h, results))"

definition execute ::
    "executor \<Rightarrow> filesystem \<Rightarrow> (pystr set \<Rightarrow> pystr list) \<Rightarrow> registry \<Rightarrow> store
      \<Rightarrow> addr execution_plan \<Rightarrow> store \<times> results" where
  "execute self fs order registry h exec_plan =
     execute_loop self fs order registry exec_plan (parallel_batches exec_plan) (h, [])"

subsection \<open>Notions for the statements about the executor\<close>



text \<open>An iteration order for sets: the members of the set in the order of the list \<open>keys\<close>.\<close>

definition list_order :: "pystr list \<Rightarrow> pystr set \<Rightarrow> pystr list" where
  "list_order keys S = filter (\<lambda>k. k \<in> S) keys"

section \<open>Result polisher: the fallback formatter\<close>







section \<open>Example inputs\<close>


text \<open>A machine where no path exists and every path resolves under \<^verbatim>\<open>/srv/\<close>.\<close>

definition fs0 :: filesystem where
  "fs0 = \<lparr>path_str = (\<lambda>p. p), path_exists = (\<lambda>p. False), path_is_absolute = (\<lambda>p. False),
          path_resolve = (\<lambda>p. asc ''/srv/'' @ p)\<rparr>"

text \<open>A task with the default priority and time estimate.\<close>

definition task_of :: "pystr \<Rightarrow> intent \<Rightarrow> pystr \<Rightarrow> 'p \<Rightarrow> pystr set \<Rightarrow> 'p task" where
  "task_of k i tool_name ps deps =
     \<lparr>t_id = k, t_intent = i, t_tool = tool_name, t_params = ps, t_dependencies = deps,
      t_priority = 5, t_estimated_time_ms = 1000\<rparr>"









text \<open>
  A plan with one search task, a search tool that returns the text \<^verbatim>\<open>ok\<close> after 31
  seconds, and one that raises \<^verbatim>\<open>ValueError("bad")\<close>.
\<close>

definition slow_search_plan :: "addr execution_plan" where
  "slow_search_plan =
     \<lparr>tasks = [task_of (asc ''task_0'') SEARCH (asc ''intelligent_search'') 0 {}],
      parallel_batches = [[asc ''task_0'']],
      total_estimated_ms = 2000, requires_llm_polish = True\<rparr>"

definition slow_registry :: registry where
  "slow_registry = [asc ''intelligent_search'' \<mapsto> (\<lambda>params. Returns (PStr (asc ''ok'')) 31000)]"

definition raising_registry :: registry where
  "raising_registry = [asc ''intelligent_search'' \<mapsto>
     (\<lambda>params. Raises \<lparr>exc_type = asc ''ValueError'', exc_msg = asc ''bad''\<rparr> 7)]"

text \<open>
  A context without files or history, and three queries: "calculate the sum of the squares
  of 1 to 10" (jisuan 1 dao 10 de pingfanghe), "what is artificial intelligence?" (shenme
  shi rengong zhineng?) and "analyse the file" (fenxi wenjian).
\<close>

definition no_files :: plan_context where
  "no_files = \<lparr>uploaded_files = [], recent_turns = [], recent_tool_results = []\<rparr>"

text \<open>
  The context that \<^verbatim>\<open>graph.py\<close> builds for the third message of a conversation, without
  files: the two messages before it are the recent turns. The query "go on" (jixu), and the
  query "search scrape" (sousuo zhuaqu).
\<close>

definition history_context :: plan_context where
  "history_context =
     \<lparr>uploaded_files = [],
      recent_turns = [TurnObject (asc ''HumanMessage''), TurnObject (asc ''AIMessage'')],
      recent_tool_results = []\<rparr>"

definition continue_query :: pystr where
  "continue_query = [0x7EE7, 0x7EED]"



definition simple_query :: pystr where
  "simple_query = [0x4EC0, 0x4E48, 0x662F, 0x4EBA, 0x5DE5, 0x667A, 0x80FD] @ asc ''?''"

definition analyze_query :: pystr where
  "analyze_query = [0x5206, 0x6790, 0x6587, 0x4EF6]"

section \<open>Properties of the fallback formatter\<close>

lemma asc_Cons_not_Nil: "asc (c # s) \<noteq> []"
  by (simp add: asc_def)











section \<open>Properties of the executor\<close>

subsection \<open>The store\<close>














lemmas run_defs = execute_def execute_batch_def execute_task_def resolve_params_def dict_copy_def
  normalize_image_path_def normalize_file_path_def inject_dependency_def dict_set_def
  collect_result_def dict_update_def task_of_def list_order_def fs0_def py_strip_chars_def asc_def


subsection \<open>Dependency injection\<close>

lemma inject_dependency_length [simp]:
  "length (inject_dependency prev task p h d) = length h"
  by (auto simp: inject_dependency_def dict_set_def split: option.splits)

lemma inject_fold_length [simp]:
  "length (foldl (inject_dependency prev task p) h ds) = length h"
  by (induction ds arbitrary: h) auto








lemma dict_set_length [simp]: "length (dict_set h p k v) = length h"
  by (simp add: dict_set_def)

lemma normalize_image_path_length [simp]: "length (normalize_image_path fs h p) = length h"
  by (auto simp: normalize_image_path_def Let_def split: option.splits pyval.splits)

lemma normalize_file_path_length [simp]: "length (normalize_file_path fs h p) = length h"
  by (auto simp: normalize_file_path_def Let_def split: option.splits pyval.splits)






subsection \<open>Timeouts and exceptions\<close>

text \<open>
  \<^verbatim>\<open>_execute_task\<close> returns a result on every path, so the outcome of its future is never
  an exception and \<open>collect_result\<close> passes the result on: neither handler of
  \<^verbatim>\<open>_execute_batch\<close> is reached. A tool that returns gives a success whatever time it took.
\<close>

lemma execute_task_returns_result:
  "\<exists>result. snd (execute_task fs order registry h task previous_results) = Inr result"
  by (auto simp: execute_task_def Let_def split_beta split: option.splits tool_run.splits)

lemma collect_result_of_task:
  "\<exists>result. snd (execute_task fs order registry h task previous_results) = Inr result
     \<and> collect_result self task (snd (execute_task fs order registry h task previous_results))
       = result"
  using execute_task_returns_result [of fs order registry h task previous_results]
  by (auto simp: collect_result_def)

lemma returning_tool_succeeds:
  assumes "registry (t_tool task) = Some tool_func"
    and "tool_func (fst (resolve_params fs order h task previous_results)
                    ! snd (resolve_params fs order h task previous_results))
         = Returns output elapsed_ms"
  shows "snd (execute_task fs order registry h task previous_results)
     = Inr \<lparr>r_task_id = t_id task, r_tool = t_tool task, r_success = True, r_output = output,
            r_error = None, r_elapsed_ms = elapsed_ms\<rparr>"
  using assms by (simp add: execute_task_def split_beta)

lemma raising_tool_keeps_message:
  assumes "registry (t_tool task) = Some tool_func"
    and "tool_func (fst (resolve_params fs order h task previous_results)
                    ! snd (resolve_params fs order h task previous_results))
         = Raises e elapsed_ms"
  shows "snd (execute_task fs order registry h task previous_results)
     = Inr \<lparr>r_task_id = t_id task, r_tool = t_tool task, r_success = False, r_output = PNone,
            r_error = Some (exc_msg e), r_elapsed_ms = elapsed_ms\<rparr>"
  using assms by (simp add: execute_task_def split_beta)

text \<open>
  Claim C2. The timeout of a search task is 30 seconds. A search tool that returns after 31
  seconds is waited for, and its result is a success with the measured time: the handler for
  \<^verbatim>\<open>TimeoutError\<close> in \<^verbatim>\<open>_execute_batch\<close> is never reached.
\<close>

theorem execute_slow_tool_succeeds:
  "get_timeout parallel_executor (hd (tasks slow_search_plan)) * 1000 = 30000
   \<and> snd (execute parallel_executor fs0 (list_order []) slow_registry [Map.empty] slow_search_plan)
     = [(asc ''task_0'',
         \<lparr>r_task_id = asc ''task_0'', r_tool = asc ''intelligent_search'', r_success = True,
          r_output = PStr (asc ''ok''), r_error = None, r_elapsed_ms = 31000\<rparr>)]"
  by (simp add: slow_search_plan_def slow_registry_def run_defs get_timeout_def SEARCH_TIMEOUT_def)

text \<open>
  Claim C7. When the tool raises \<^verbatim>\<open>ValueError("bad")\<close>, the error of the result is the
  message \<^verbatim>\<open>bad\<close> alone: \<^verbatim>\<open>_execute_task\<close> keeps \<^verbatim>\<open>str(e)\<close>, and the handler of
  \<^verbatim>\<open>_execute_batch\<close> that writes the name of the type is never reached.
\<close>

theorem execute_error_is_message_only:
  "snd (execute parallel_executor fs0 (list_order []) raising_registry [Map.empty] slow_search_plan)
     = [(asc ''task_0'',
         \<lparr>r_task_id = asc ''task_0'', r_tool = asc ''intelligent_search'', r_success = False,
          r_output = PNone, r_error = Some (asc ''bad''), r_elapsed_ms = 7\<rparr>)]
   \<and> \<not> sublist (asc ''ValueError'') (asc ''bad'')"
  by (simp add: slow_search_plan_def raising_registry_def run_defs sublist_code(3))

section \<open>Properties of the planner\<close>

subsection \<open>The scheduling loop\<close>

lemma exists_ready:
  assumes fin: "finite keys" and dom: "dom td = keys"
    and closed: "\<And>tid t. td tid = Some t \<Longrightarrow> t_dependencies t \<subseteq> keys"
    and acyc: "acyclic (td_graph td)"
    and sub: "remaining \<subseteq> keys" and ne: "remaining \<noteq> {}"
  shows "\<exists>tid \<in> remaining. is_ready td (keys - remaining) tid"
proof -
  have "td_graph td \<subseteq> keys \<times> keys"
    using closed dom by (auto simp: td_graph_def)
  then have "finite (td_graph td)"
    using fin by (meson finite_SigmaI finite_subset)
  then have "wf (td_graph td)"
    using acyc by (rule finite_acyclic_wf)
  moreover from ne obtain x where "x \<in> remaining" by auto
  ultimately obtain z where z: "z \<in> remaining"
    and min: "\<And>y. (y, z) \<in> td_graph td \<Longrightarrow> y \<notin> remaining"
    by (rule wfE_min) blast
  from z sub dom obtain t where t: "td z = Some t" by auto
  have "t_dependencies t \<subseteq> keys - remaining"
  proof
    fix d assume d: "d \<in> t_dependencies t"
    with t have "(d, z) \<in> td_graph td" by (auto simp: td_graph_def)
    then have "d \<notin> remaining" by (rule min)
    moreover from closed [OF t] d have "d \<in> keys" by auto
    ultimately show "d \<in> keys - remaining" by simp
  qed
  with t have "is_ready td (keys - remaining) z"
    by (simp add: is_ready_def)
  with z show ?thesis by blast
qed

lemma batches_ordered_snoc:
  assumes "batches_ordered td batches"
    and "\<And>tid t. tid \<in> set ready \<Longrightarrow> td tid = Some t \<Longrightarrow> t_dependencies t \<subseteq> set (concat batches)"
  shows "batches_ordered td (batches @ [ready])"
  unfolding batches_ordered_def
proof (intro allI impI ballI)
  fix i tid t
  assume i: "i < length (batches @ [ready])" and tid: "tid \<in> set ((batches @ [ready]) ! i)"
    and t: "td tid = Some t"
  show "t_dependencies t \<subseteq> set (concat (take i (batches @ [ready])))"
  proof (cases "i < length batches")
    case True
    with assms(1) tid t show ?thesis
      by (auto simp: batches_ordered_def nth_append)
  next
    case False
    with i have "i = length batches" by simp
    with tid t assms(2) show ?thesis by (auto simp: nth_append)
  qed
qed

lemma schedule_step_inv:
  assumes ord: "lists_sets order keys" and fin: "finite keys" and dom: "dom td = keys"
    and closed: "\<And>tid t. td tid = Some t \<Longrightarrow> t_dependencies t \<subseteq> keys"
    and acyc: "acyclic (td_graph td)"
    and inv: "schedule_inv td keys (remaining, batches)" and ne: "remaining \<noteq> {}"
  shows "schedule_inv td keys (schedule_step order td keys (remaining, batches))
    \<and> card (fst (schedule_step order td keys (remaining, batches))) < card remaining"
proof -
  from inv have sub: "remaining \<subseteq> keys" and cover: "set (concat batches) = keys - remaining"
    and dist: "distinct (concat batches)" and nonempty: "[] \<notin> set batches"
    and ordered: "batches_ordered td batches"
    by (auto simp: schedule_inv_def)
  from ord sub have iter: "set (order remaining) = remaining" "distinct (order remaining)"
    by (auto simp: lists_sets_def)
  define ready0 where "ready0 = filter (is_ready td (keys - remaining)) (order remaining)"
  define ready where "ready = sort_key (\<lambda>tid. - priority_of td tid) ready0"
  from exists_ready [OF fin dom closed acyc sub ne] iter
  have ready0_ne: "ready0 \<noteq> []"
    by (auto simp: ready0_def filter_empty_conv)
  then have step: "schedule_step order td keys (remaining, batches)
      = (remaining - set ready, batches @ [ready])"
    by (simp add: schedule_step_def Let_def ready0_def ready_def)
  have set_ready: "set ready = set ready0" and dist_ready: "distinct ready"
    using iter by (auto simp: ready_def ready0_def)
  have ready_sub: "set ready \<subseteq> remaining"
    using iter by (auto simp: set_ready ready0_def)
  have ready_ne: "ready \<noteq> []"
    using ready0_ne set_ready by (metis set_empty)
  have ready_deps: "t_dependencies t \<subseteq> set (concat batches)"
    if "tid \<in> set ready" "td tid = Some t" for tid t
    using that cover by (auto simp: set_ready ready0_def is_ready_def)
  have 1: "remaining - set ready \<subseteq> keys" using sub by auto
  have 2: "set (concat (batches @ [ready])) = keys - (remaining - set ready)"
    using cover ready_sub sub by auto
  have 3: "distinct (concat (batches @ [ready]))"
    using dist dist_ready cover ready_sub by auto
  have 4: "[] \<notin> set (batches @ [ready])"
    using nonempty ready_ne by auto
  have 5: "batches_ordered td (batches @ [ready])"
    using ordered ready_deps by (rule batches_ordered_snoc)
  have "finite remaining" using sub fin by (rule finite_subset)
  moreover have "remaining - set ready \<subset> remaining"
    using ready_sub ready_ne by (cases ready) auto
  ultimately have 6: "card (remaining - set ready) < card remaining"
    by (rule psubset_card_mono)
  from 1 2 3 4 5 have "schedule_inv td keys (remaining - set ready, batches @ [ready])"
    unfolding schedule_inv_def by blast
  with 6 show ?thesis
    unfolding step by simp
qed

lemma schedule_loop_result:
  assumes ord: "lists_sets order keys" and fin: "finite keys" and dom: "dom td = keys"
    and closed: "\<And>tid t. td tid = Some t \<Longrightarrow> t_dependencies t \<subseteq> keys"
    and acyc: "acyclic (td_graph td)"
  shows "\<exists>batches. while_option (\<lambda>(remaining, batches). remaining \<noteq> {})
            (schedule_step order td keys) (keys, []) = Some ({}, batches)
          \<and> schedule_inv td keys ({}, batches)"
proof -
  let ?b = "\<lambda>(remaining, batches :: pystr list list). remaining \<noteq> {}"
  let ?c = "schedule_step order td keys"
  have init: "schedule_inv td keys (keys, [])"
    by (simp add: schedule_inv_def batches_ordered_def)
  have step: "schedule_inv td keys (?c s) \<and> card (fst (?c s)) < card (fst s)"
    if "schedule_inv td keys s" "?b s" for s
    using that schedule_step_inv [OF ord fin dom closed acyc] by (cases s) auto
  have "\<exists>s. while_option ?b ?c (keys, []) = Some s"
    by (rule measure_while_option_Some [of "schedule_inv td keys" _ _ "\<lambda>s. card (fst s)"])
      (use step init in auto)
  then obtain s where s: "while_option ?b ?c (keys, []) = Some s"
    by blast
  have inv: "schedule_inv td keys s"
    by (rule while_option_rule [OF _ s, of "schedule_inv td keys"]) (use step init in auto)
  from while_option_stop [OF s] have "fst s = {}" by (cases s) auto
  with s inv show ?thesis by (cases s) auto
qed

subsection \<open>Task ids and dependencies\<close>

lemma nat_str_value: "foldl (\<lambda>a d. 10 * a + (d - 48)) 0 (nat_str n) = n"
proof (induction n rule: nat_str.induct)
  case (1 n)
  show ?case
  proof (cases "n < 10")
    case True
    then show ?thesis by (subst nat_str.simps) simp
  next
    case False
    with 1 show ?thesis by (subst nat_str.simps) simp
  qed
qed

lemma nat_str_inj: "nat_str m = nat_str n \<Longrightarrow> m = n"
  by (metis nat_str_value)

lemma task_name_inj: "task_name m = task_name n \<Longrightarrow> m = n"
  by (simp add: task_name_def nat_str_inj)

lemma distinct_task_names: "distinct (map task_name [m ..< n])"
  by (simp add: distinct_map inj_on_def task_name_inj)

lemma vision_tasks_ids:
  "map t_id (vision_tasks query imgs n) = map task_name [n ..< n + length imgs]"
proof (induction imgs arbitrary: n)
  case Nil
  show ?case by simp
next
  case (Cons img imgs)
  have "[n ..< n + length (img # imgs)] = n # [Suc n ..< Suc n + length imgs]"
    by (simp add: upt_rec)
  with Cons [of "Suc n"] show ?case by (simp add: Let_def)
qed

lemma vision_tasks_length: "length (vision_tasks query imgs n) = length imgs"
  by (induction imgs arbitrary: n) (simp_all add: Let_def)

lemma intent_tasks_ids:
  "map t_id (intent_tasks query ctx b intents n)
     = map task_name [n ..< n + length (intent_tasks query ctx b intents n)]"
proof (induction intents arbitrary: n)
  case Nil
  show ?case by simp
next
  case (Cons i intents)
  have up: "[n ..< n + Suc k] = n # [Suc n ..< Suc n + k]" for k
    by (simp add: upt_rec)
  show ?case
    using Cons [of n] Cons [of "Suc n"] up
    by (auto split: option.splits)
qed

lemma decompose_tasks_ids:
  "map t_id (decompose_tasks query intents ctx)
     = map task_name [0 ..< length (decompose_tasks query intents ctx)]"
proof -
  let ?imgs = "filter is_image_file (uploaded_files ctx)"
  let ?v = "vision_tasks query ?imgs 0"
  let ?r = "intent_tasks query ctx (?imgs \<noteq> []) intents (length ?imgs)"
  have "map t_id (?v @ ?r) = map task_name ([0 ..< length ?imgs] @ [length ?imgs ..< length ?imgs + length ?r])"
    using vision_tasks_ids [of query ?imgs 0] intent_tasks_ids [of query ctx "?imgs \<noteq> []" intents "length ?imgs"]
    by simp
  also have "[0 ..< length ?imgs] @ [length ?imgs ..< length ?imgs + length ?r] = [0 ..< length (?v @ ?r)]"
    by (simp add: vision_tasks_length upt_add_eq_append [symmetric])
  finally show ?thesis by (simp add: decompose_tasks_def Let_def)
qed

lemma decompose_tasks_distinct: "distinct (map t_id (decompose_tasks query intents ctx))"
  by (subst decompose_tasks_ids) (rule distinct_task_names)

lemma vision_tasks_no_deps: "t \<in> set (vision_tasks query imgs n) \<Longrightarrow> t_dependencies t = {}"
  by (induction imgs arbitrary: n) (auto simp: Let_def)

lemma intent_tasks_no_deps:
  "t \<in> set (intent_tasks query ctx b intents n) \<Longrightarrow> t_dependencies t = {}"
  by (induction intents arbitrary: n) (auto split: option.splits if_splits)

lemma decompose_tasks_no_deps:
  "t \<in> set (decompose_tasks query intents ctx) \<Longrightarrow> t_dependencies t = {}"
  by (auto simp: decompose_tasks_def Let_def vision_tasks_no_deps intent_tasks_no_deps)

lemma file_ids_fold:
  "foldl (\<lambda>deps other. if t_intent other = FILE_OP \<and> t_id other \<noteq> k
                         then insert (t_id other) deps else deps) acc ts
   = acc \<union> {t_id other | other. other \<in> set ts \<and> t_intent other = FILE_OP \<and> t_id other \<noteq> k}"
  by (induction ts arbitrary: acc) auto

lemma analyze_dependencies_ids [simp]: "map t_id (analyze_dependencies ts) = map t_id ts"
  by (simp add: analyze_dependencies_def)

lemma analyze_dependencies_intents [simp]:
  "map t_intent (analyze_dependencies ts) = map t_intent ts"
  by (simp add: analyze_dependencies_def)

lemma analyze_dependencies_member:
  assumes "task \<in> set (analyze_dependencies ts)"
  obtains t where "t \<in> set ts" "t_id task = t_id t" "t_intent task = t_intent t"
    "t_estimated_time_ms task = t_estimated_time_ms t"
    "t_dependencies task =
       (if t_intent t = DATA_ANALYSIS
        then t_dependencies t \<union> {t_id other | other. other \<in> set ts \<and> t_intent other = FILE_OP
                                    \<and> t_id other \<noteq> t_id t}
        else t_dependencies t)"
  using assms by (auto simp: analyze_dependencies_def file_ids_fold)

lemma analyze_dependencies_file_ids:
  "{t_id other | other. other \<in> set (analyze_dependencies ts) \<and> t_intent other = FILE_OP}
   = {t_id other | other. other \<in> set ts \<and> t_intent other = FILE_OP}"
  by (auto simp: analyze_dependencies_def)

lemma distinct_ids_eq:
  "distinct (map t_id ts) \<Longrightarrow> x \<in> set ts \<Longrightarrow> y \<in> set ts \<Longrightarrow> t_id x = t_id y \<Longrightarrow> x = y"
  by (auto simp: distinct_map inj_on_def)

lemma analyzed_dependencies:
  assumes dist: "distinct (map t_id ts)" and nodeps: "\<And>t. t \<in> set ts \<Longrightarrow> t_dependencies t = {}"
    and mem: "task \<in> set (analyze_dependencies ts)"
  shows "t_dependencies task =
     (if t_intent task = DATA_ANALYSIS
      then {t_id other | other. other \<in> set ts \<and> t_intent other = FILE_OP} else {})"
proof -
  from mem obtain t where t: "t \<in> set ts" "t_id task = t_id t" "t_intent task = t_intent t"
    and deps: "t_dependencies task =
       (if t_intent t = DATA_ANALYSIS
        then t_dependencies t \<union> {t_id other | other. other \<in> set ts \<and> t_intent other = FILE_OP
                                    \<and> t_id other \<noteq> t_id t}
        else t_dependencies t)"
    by (rule analyze_dependencies_member)
  show ?thesis
  proof (cases "t_intent t = DATA_ANALYSIS")
    case True
    have "t_id other \<noteq> t_id t" if "other \<in> set ts" "t_intent other = FILE_OP" for other
      using that True t(1) distinct_ids_eq [OF dist that(1) t(1)] by auto
    then have "{t_id other | other. other \<in> set ts \<and> t_intent other = FILE_OP \<and> t_id other \<noteq> t_id t}
        = {t_id other | other. other \<in> set ts \<and> t_intent other = FILE_OP}"
      by auto
    with True deps t nodeps [OF t(1)] show ?thesis by simp
  next
    case False
    with deps t nodeps [OF t(1)] show ?thesis by simp
  qed
qed

text \<open>
  Claim C6. After dependency inference on the tasks that decomposition gives, for any query,
  list of intents and context, the dependencies of every analysis task are exactly the ids of
  the file tasks of the list, and the dependencies of every other task are empty.
\<close>

theorem analyze_dependencies_rule:
  "\<forall>task \<in> set (analyze_dependencies (decompose_tasks query intents ctx)).
     (t_intent task = DATA_ANALYSIS \<longrightarrow>
        t_dependencies task =
          {t_id other | other. other \<in> set (analyze_dependencies (decompose_tasks query intents ctx))
                               \<and> t_intent other = FILE_OP})
     \<and> (t_intent task \<noteq> DATA_ANALYSIS \<longrightarrow> t_dependencies task = {})"
  using analyzed_dependencies [OF decompose_tasks_distinct decompose_tasks_no_deps]
  by (simp add: analyze_dependencies_file_ids)

subsection \<open>Batches of a list of tasks\<close>

lemma task_dict_Some: "task_dict ts k = Some t \<Longrightarrow> t \<in> set ts \<and> t_id t = k"
  by (auto simp: task_dict_def dest!: map_of_SomeD)

lemma task_dict_dom: "dom (task_dict ts) = t_id ` set ts"
  by (auto simp: task_dict_def dom_map_of_conv_image_fst image_iff)

lemma task_dict_distinct:
  assumes "distinct (map t_id ts)" "t \<in> set ts"
  shows "task_dict ts (t_id t) = Some t"
proof -
  have "distinct (map fst (rev (map (\<lambda>t. (t_id t, t)) ts)))"
    using assms(1) by (simp add: rev_map [symmetric] comp_def)
  moreover have "(t_id t, t) \<in> set (rev (map (\<lambda>t. (t_id t, t)) ts))"
    using assms(2) by auto
  ultimately show ?thesis
    unfolding task_dict_def by (rule map_of_is_SomeI)
qed

lemma td_graph_task_dict:
  "distinct (map t_id ts) \<Longrightarrow> td_graph (task_dict ts) = dependency_graph ts"
  by (auto simp: td_graph_def dependency_graph_def task_dict_distinct dest: task_dict_Some)

lemma in_concat_index: "x \<in> set (concat bs) \<longleftrightarrow> (\<exists>i < length bs. x \<in> set (bs ! i))"
  by simp (metis in_set_conv_nth)

lemma schedule_tasks_valid:
  assumes ord: "lists_sets order (t_id ` set ts)" and dist: "distinct (map t_id ts)"
    and closed: "\<And>t. t \<in> set ts \<Longrightarrow> t_dependencies t \<subseteq> t_id ` set ts"
    and acyc: "acyclic (dependency_graph ts)"
  shows "\<exists>batches. schedule_tasks order ts = Some batches \<and> valid_schedule ts batches
           \<and> [] \<notin> set batches"
proof (cases "ts = []")
  case True
  then show ?thesis by (simp add: schedule_tasks_def valid_schedule_def)
next
  case False
  let ?keys = "t_id ` set ts"
  let ?td = "task_dict ts"
  have closed': "t_dependencies t \<subseteq> ?keys" if "?td tid = Some t" for tid t
    using task_dict_Some [OF that] closed by blast
  have acyc': "acyclic (td_graph ?td)"
    using acyc dist by (simp add: td_graph_task_dict)
  have fin: "finite ?keys" by simp
  have "\<exists>batches. while_option (\<lambda>(remaining, batches). remaining \<noteq> {})
        (schedule_step order ?td ?keys) (?keys, []) = Some ({}, batches)
      \<and> schedule_inv ?td ?keys ({}, batches)"
    by (rule schedule_loop_result [OF ord fin task_dict_dom _ acyc']) (rule closed')
  then obtain batches where run: "while_option (\<lambda>(remaining, batches). remaining \<noteq> {})
        (schedule_step order ?td ?keys) (?keys, []) = Some ({}, batches)"
    and inv: "schedule_inv ?td ?keys ({}, batches)"
    by auto
  from inv have cover: "set (concat batches) = ?keys" and dist_b: "distinct (concat batches)"
    and ne: "[] \<notin> set batches" and ordered: "batches_ordered ?td batches"
    by (auto simp: schedule_inv_def)
  have "\<exists>i < length batches. \<exists>j < i. t_id t \<in> set (batches ! i) \<and> d \<in> set (batches ! j)"
    if t: "t \<in> set ts" and d: "d \<in> t_dependencies t" for t d
  proof -
    from t cover have "t_id t \<in> set (concat batches)" by auto
    then obtain i where i: "i < length batches" "t_id t \<in> set (batches ! i)"
      using in_concat_index [of "t_id t" batches] by blast
    from ordered i task_dict_distinct [OF dist t] d
    have "d \<in> set (concat (take i batches))"
      unfolding batches_ordered_def by blast
    then obtain j where "j < length (take i batches)" "d \<in> set (take i batches ! j)"
      using in_concat_index [of d "take i batches"] by blast
    with i have "j < i" "d \<in> set (batches ! j)" by auto
    with i show ?thesis by blast
  qed
  with cover dist_b have "valid_schedule ts batches"
    by (auto simp: valid_schedule_def)
  moreover from run False have "schedule_tasks order ts = Some batches"
    by (simp add: schedule_tasks_def)
  ultimately show ?thesis using ne by blast
qed

lemma those_map_Some:
  "\<forall>x \<in> set xs. f x \<noteq> None \<Longrightarrow> \<exists>ys. those (map f xs) = Some ys \<and> length ys = length xs"
  by (induction xs) (auto split: option.splits)

lemma estimate_loop_Some:
  assumes "\<forall>batch \<in> set batches. batch \<noteq> [] \<and> set batch \<subseteq> dom td"
  shows "\<exists>total. estimate_loop td batches acc = Inr total"
  using assms
proof (induction batches arbitrary: acc)
  case Nil
  show ?case by simp
next
  case (Cons batch batches)
  then have b: "batch \<noteq> []" "set batch \<subseteq> dom td" by auto
  then have "\<forall>tid \<in> set batch. map_option t_estimated_time_ms (td tid) \<noteq> None"
    by auto
  from those_map_Some [OF this] obtain ys
    where ys: "those (map (\<lambda>tid. map_option t_estimated_time_ms (td tid)) batch) = Some ys"
      "length ys = length batch"
    by blast
  with b obtain y ys' where "ys = y # ys'" by (cases ys) auto
  with ys Cons show ?case by auto
qed

lemma bipartite_acyclic:
  assumes "r \<subseteq> A \<times> B" "A \<inter> B = {}"
  shows "acyclic r"
proof (rule acyclicI, intro allI notI)
  fix x assume "(x, x) \<in> r\<^sup>+"
  then obtain y where xy: "(x, y) \<in> r" and yx: "(y, x) \<in> r\<^sup>*"
    by (meson tranclD)
  from xy assms have x: "x \<in> A" and y: "y \<in> B" by auto
  from yx show False
  proof (cases rule: converse_rtranclE)
    case base
    with x y assms show False by auto
  next
    case (step z)
    with assms have "y \<in> A" by auto
    with y assms show False by auto
  qed
qed

subsection \<open>Batches as sets\<close>







subsection \<open>The plan\<close>

lemma continuation_check_no_turns:
  "recent_turns ctx = [] \<Longrightarrow> continuation_check query_lower ctx = None"
  by (simp add: continuation_check_def)

lemma classify_intent_raises:
  "continuation_check (py_lower user_query) ctx = Some e \<Longrightarrow> classify_intent user_query ctx = Inl e"
  by (simp add: classify_intent_def Let_def)

lemma classify_intent_returns:
  "continuation_check (py_lower user_query) ctx = None \<Longrightarrow>
   \<exists>intents. classify_intent user_query ctx = Inr intents"
  by (simp add: classify_intent_def Let_def)

lemma planned_tasks_distinct: "distinct (map t_id (planned_tasks user_query ctx))"
  by (simp add: planned_tasks_def decompose_tasks_distinct split: sum.splits)

lemma planned_tasks_dependencies:
  assumes "task \<in> set (planned_tasks user_query ctx)"
  shows "t_dependencies task =
     (if t_intent task = DATA_ANALYSIS
      then {t_id other | other. other \<in> set (planned_tasks user_query ctx) \<and> t_intent other = FILE_OP}
      else {})"
proof (cases "classify_intent user_query ctx")
  case (Inl e)
  with assms show ?thesis by (simp add: planned_tasks_def)
next
  case (Inr intents)
  then have eq: "planned_tasks user_query ctx
      = analyze_dependencies (decompose_tasks user_query intents ctx)"
    by (simp add: planned_tasks_def)
  from assms analyzed_dependencies [OF decompose_tasks_distinct decompose_tasks_no_deps]
  show ?thesis
    unfolding eq by (simp add: analyze_dependencies_file_ids)
qed

lemma planned_tasks_acyclic: "acyclic (dependency_graph (planned_tasks user_query ctx))"
proof -
  let ?ts = "planned_tasks user_query ctx"
  let ?F = "{t_id other | other. other \<in> set ?ts \<and> t_intent other = FILE_OP}"
  let ?D = "{t_id task | task. task \<in> set ?ts \<and> t_intent task = DATA_ANALYSIS}"
  have "dependency_graph ?ts \<subseteq> ?F \<times> ?D"
  proof
    fix e assume "e \<in> dependency_graph ?ts"
    then obtain d t where e: "e = (d, t_id t)" and t: "t \<in> set ?ts" and d: "d \<in> t_dependencies t"
      unfolding dependency_graph_def by blast
    from d planned_tasks_dependencies [OF t]
    have "t_intent t = DATA_ANALYSIS" and "d \<in> ?F"
      by (simp_all split: if_splits)
    with t e show "e \<in> ?F \<times> ?D" by blast
  qed
  moreover have "?F \<inter> ?D = {}"
  proof (rule ccontr)
    assume "?F \<inter> ?D \<noteq> {}"
    then obtain x where "x \<in> ?F" "x \<in> ?D" by blast
    then obtain other task where o: "other \<in> set ?ts" "t_intent other = FILE_OP" "x = t_id other"
      and k: "task \<in> set ?ts" "t_intent task = DATA_ANALYSIS" "x = t_id task"
      by blast
    from distinct_ids_eq [OF planned_tasks_distinct o(1) k(1)] o k have "other = task" by simp
    with o k show False by simp
  qed
  ultimately show ?thesis by (rule bipartite_acyclic)
qed

lemma planned_tasks_closed:
  "t \<in> set (planned_tasks user_query ctx) \<Longrightarrow>
   t_dependencies t \<subseteq> t_id ` set (planned_tasks user_query ctx)"
  by (auto simp: planned_tasks_dependencies)

lemma plan_unfold:
  "plan order start_time end_time user_query ctx =
     (case classify_intent user_query ctx of
        Inl e \<Rightarrow> Some (Inl e)
      | Inr intents \<Rightarrow>
          (case schedule_tasks order (planned_tasks user_query ctx) of
             None \<Rightarrow> None
           | Some batches \<Rightarrow>
               (case estimate_total_time batches (planned_tasks user_query ctx) of
                  Inl e \<Rightarrow> Some (Inl e)
                | Inr total_time \<Rightarrow>
                    Some (Inr \<lparr>tasks = planned_tasks user_query ctx, parallel_batches = batches,
                               total_estimated_ms = total_time, requires_llm_polish = True\<rparr>))))"
  by (simp add: plan_def planned_tasks_def needs_polish_def Let_def split: option.splits sum.splits)

lemma plan_returns_valid:
  assumes ord: "lists_sets order (t_id ` set (planned_tasks user_query ctx))"
    and cl: "classify_intent user_query ctx = Inr intents"
  shows "\<exists>batches total. schedule_tasks order (planned_tasks user_query ctx) = Some batches
          \<and> estimate_total_time batches (planned_tasks user_query ctx) = Inr total
          \<and> valid_schedule (planned_tasks user_query ctx) batches
          \<and> plan order start_time end_time user_query ctx
              = Some (Inr \<lparr>tasks = planned_tasks user_query ctx, parallel_batches = batches,
                           total_estimated_ms = total, requires_llm_polish = True\<rparr>)"
proof -
  let ?ts = "planned_tasks user_query ctx"
  from schedule_tasks_valid [OF ord planned_tasks_distinct planned_tasks_closed
      planned_tasks_acyclic]
  obtain batches where run: "schedule_tasks order ?ts = Some batches"
    and valid: "valid_schedule ?ts batches" and ne: "[] \<notin> set batches"
    by blast
  from valid have cover: "set (concat batches) = t_id ` set ?ts"
    by (simp add: valid_schedule_def)
  have "\<forall>batch \<in> set batches. batch \<noteq> [] \<and> set batch \<subseteq> dom (task_dict ?ts)"
    using ne cover by (auto simp: task_dict_dom)
  from estimate_loop_Some [OF this]
  obtain total where "estimate_total_time batches ?ts = Inr total"
    by (auto simp: estimate_total_time_def)
  with run valid cl show ?thesis
    by (simp add: plan_unfold)
qed

text \<open>
  Claim C1. For every query and context, and every order of iteration that lists the sets of
  ids of the plan's tasks: when the block for a continuation raises, \<^verbatim>\<open>plan\<close> raises that
  exception and produces no plan; otherwise \<^verbatim>\<open>plan\<close> returns a plan, its dependency graph
  is acyclic, every dependency of every task is in a batch with a strictly smaller index than
  the batch of the task, and the batches hold exactly the ids of the tasks, each id once.
\<close>

theorem plan_batches_valid:
  assumes "lists_sets order (t_id ` set (planned_tasks user_query ctx))"
  shows "case continuation_check (py_lower user_query) ctx of
           Some e \<Rightarrow> plan order start_time end_time user_query ctx = Some (Inl e)
         | None \<Rightarrow>
             (\<exists>p. plan order start_time end_time user_query ctx = Some (Inr p)
                \<and> tasks p = planned_tasks user_query ctx
                \<and> acyclic (dependency_graph (tasks p))
                \<and> valid_schedule (tasks p) (parallel_batches p))"
proof (cases "continuation_check (py_lower user_query) ctx")
  case (Some e)
  then show ?thesis
    by (simp add: plan_def classify_intent_raises)
next
  case None
  from classify_intent_returns [OF this] obtain intents
    where "classify_intent user_query ctx = Inr intents" ..
  from plan_returns_valid [OF assms this, of start_time end_time]
    planned_tasks_acyclic [of user_query ctx] None
  show ?thesis by auto
qed


lemma matching_intents_none:
  assumes "\<forall>(intent, patterns) \<in> set intent_patterns.
             \<forall>pattern \<in> set patterns. re_search pattern query_lower = None"
  shows "matching_intents query_lower = []"
  using assms
  by (auto simp: matching_intents_def filter_empty_conv list_ex_iff)

text \<open>
  When no pattern of the table matches the lowered query, the context has no uploaded file
  and the block for a continuation does not raise, the plan has no task, no batch, the
  estimate 0 and the polish flag set.
\<close>

lemma plan_without_intent:
  assumes "matching_intents (py_lower user_query) = []"
    and "uploaded_files ctx = []"
    and "continuation_check (py_lower user_query) ctx = None"
  shows "plan order start_time end_time user_query ctx
     = Some (Inr \<lparr>tasks = [], parallel_batches = [], total_estimated_ms = 0,
                  requires_llm_polish = True\<rparr>)"
proof -
  from assms have cl: "classify_intent user_query ctx = Inr [SIMPLE_QA]"
    by (simp add: classify_intent_def Let_def)
  with assms(2) have "planned_tasks user_query ctx = []"
    by (simp add: planned_tasks_def decompose_tasks_def analyze_dependencies_def)
  with cl show ?thesis
    by (simp add: plan_unfold schedule_tasks_def estimate_total_time_def)
qed

text \<open>
  A query with one of the words for a continuation, in a context whose last recent turn is an
  object without the attribute \<^verbatim>\<open>get\<close>: \<^verbatim>\<open>plan\<close> raises \<^verbatim>\<open>AttributeError\<close>.
\<close>

lemma plan_raises_on_message_object:
  assumes "list_ex (\<lambda>kw. sublist kw (py_lower user_query)) continuation_keywords"
    and "recent_turns ctx \<noteq> []" and "last (recent_turns ctx) = TurnObject cls"
  shows "plan order start_time end_time user_query ctx = Some (Inl (Exn (asc ''AttributeError'')))"
proof -
  from assms have "continuation_check (py_lower user_query) ctx = Some (Exn (asc ''AttributeError''))"
    by (simp add: continuation_check_def)
  from classify_intent_raises [OF this] show ?thesis
    by (simp add: plan_def)
qed

subsection \<open>Plans of the example queries\<close>

lemmas text_defs = asc_def py_lower_def lower_char_def py_isdecimal_def py_isspace_def in_ranges_def
  decimal_ranges_def space_ranges_def py_strip_def

lemmas regex_defs = re_search_def rx_here_def words_def match_groups_def match_group_def
  prev_after_def





lemma task_name_eq [simp]: "task_name m = task_name n \<longleftrightarrow> m = n"
  using task_name_inj by blast







lemma simple_query_lower: "py_lower simple_query = simple_query"
  by (simp add: simple_query_def text_defs)

lemma simple_query_intents: "matching_intents simple_query = []"
  by (simp add: simple_query_def matching_intents_def intent_patterns_def regex_defs text_defs)

lemma simple_query_plan:
  "plan (list_order []) 0 7 simple_query no_files
     = Some (Inr \<lparr>tasks = [], parallel_batches = [], total_estimated_ms = 0,
                  requires_llm_polish = True\<rparr>)"
  by (rule plan_without_intent)
    (simp_all add: simple_query_lower simple_query_intents continuation_check_no_turns no_files_def)

lemma continue_query_lower: "py_lower continue_query = continue_query"
  by (simp add: continue_query_def text_defs)

lemma continue_query_intents: "matching_intents continue_query = []"
  by (simp add: continue_query_def matching_intents_def intent_patterns_def regex_defs text_defs)

lemma continue_query_keyword:
  "list_ex (\<lambda>kw. sublist kw continue_query) continuation_keywords"
  by (simp add: continue_query_def continuation_keywords_def sublist_code(3))

text \<open>
  Claim C4, as the code has it. The query "go on" matches no pattern of the table, and the
  context that \<^verbatim>\<open>graph.py\<close> builds for it in a running conversation has no uploaded file;
  \<^verbatim>\<open>plan\<close> raises \<^verbatim>\<open>AttributeError\<close> and returns no plan. In a context without recent
  turns the same query gives the plan with no task and the polish flag set.
\<close>

theorem plan_continue_query_raises:
  "uploaded_files history_context = []
   \<and> matching_intents (py_lower continue_query) = []
   \<and> plan (list_order []) 0 0 continue_query history_context
     = Some (Inl (Exn (asc ''AttributeError'')))
   \<and> plan (list_order []) 0 0 continue_query no_files
     = Some (Inr \<lparr>tasks = [], parallel_batches = [], total_estimated_ms = 0,
                  requires_llm_polish = True\<rparr>)"
proof -
  have "plan (list_order []) 0 0 continue_query history_context
      = Some (Inl (Exn (asc ''AttributeError'')))"
    by (rule plan_raises_on_message_object [where cls = "asc ''AIMessage''"])
      (simp_all add: continue_query_lower continue_query_keyword history_context_def)
  moreover have "plan (list_order []) 0 0 continue_query no_files
      = Some (Inr \<lparr>tasks = [], parallel_batches = [], total_estimated_ms = 0,
                   requires_llm_polish = True\<rparr>)"
    by (rule plan_without_intent)
      (simp_all add: continue_query_lower continue_query_intents continuation_check_no_turns
        no_files_def)
  ultimately show ?thesis
    by (simp add: continue_query_lower continue_query_intents history_context_def)
qed

lemma lists_sets_list_order:
  "distinct keys \<Longrightarrow> K \<subseteq> set keys \<Longrightarrow> lists_sets (list_order keys) K"
  by (auto simp: lists_sets_def list_order_def)

lemma analyze_query_decomposed:
  "decompose_tasks analyze_query [FILE_OP, DATA_ANALYSIS] no_files
     = [\<lparr>t_id = task_name 0, t_intent = FILE_OP, t_tool = asc ''file_operations'',
         t_params = extract_file_params analyze_query no_files,
         t_dependencies = {}, t_priority = 10, t_estimated_time_ms = 100\<rparr>,
        \<lparr>t_id = task_name (Suc 0), t_intent = DATA_ANALYSIS, t_tool = asc ''data_analysis'',
         t_params = extract_analysis_params analyze_query no_files,
         t_dependencies = {}, t_priority = 5, t_estimated_time_ms = 2000\<rparr>]"
  by (simp add: decompose_tasks_def estimate_task_time_def no_files_def asc_def)

lemma analyze_query_analyzed:
  "analyze_dependencies (decompose_tasks analyze_query [FILE_OP, DATA_ANALYSIS] no_files)
     = [\<lparr>t_id = task_name 0, t_intent = FILE_OP, t_tool = asc ''file_operations'',
         t_params = extract_file_params analyze_query no_files,
         t_dependencies = {}, t_priority = 10, t_estimated_time_ms = 100\<rparr>,
        \<lparr>t_id = task_name (Suc 0), t_intent = DATA_ANALYSIS, t_tool = asc ''data_analysis'',
         t_params = extract_analysis_params analyze_query no_files,
         t_dependencies = {task_name 0}, t_priority = 5, t_estimated_time_ms = 2000\<rparr>]"
  by (simp add: analyze_query_decomposed analyze_dependencies_def)

theorem analyze_dependencies_rule_witness:
  "map (\<lambda>t. (t_intent t, t_dependencies t))
      (analyze_dependencies (decompose_tasks analyze_query [FILE_OP, DATA_ANALYSIS] no_files))
     = [(FILE_OP, {}), (DATA_ANALYSIS, {task_name 0})]"
  using analyze_dependencies_rule [of analyze_query "[FILE_OP, DATA_ANALYSIS]" no_files]
  by (simp add: analyze_query_analyzed)

lemma analyze_query_lower: "py_lower analyze_query = analyze_query"
  by (simp add: analyze_query_def text_defs)

lemma analyze_query_intents: "matching_intents analyze_query = [FILE_OP, DATA_ANALYSIS]"
  by (simp add: analyze_query_def matching_intents_def intent_patterns_def regex_defs text_defs)

lemma analyze_query_classified:
  "classify_intent analyze_query no_files = Inr [FILE_OP, DATA_ANALYSIS]"
  by (simp add: classify_intent_def analyze_query_lower analyze_query_intents
      continuation_check_no_turns no_files_def)

lemma analyze_query_tasks:
  "planned_tasks analyze_query no_files
     = analyze_dependencies (decompose_tasks analyze_query [FILE_OP, DATA_ANALYSIS] no_files)"
  by (simp add: planned_tasks_def analyze_query_classified)

lemma analyze_query_batches:
  "schedule_tasks (list_order [task_name 0, task_name (Suc 0)]) (planned_tasks analyze_query no_files)
     = Some [[task_name 0], [task_name (Suc 0)]]"
  by (simp add: analyze_query_tasks analyze_query_analyzed schedule_tasks_def while_option_unfold
      schedule_step_def list_order_def task_dict_def is_ready_def priority_of_def)

theorem plan_batches_valid_witness:
  "lists_sets (list_order [task_name 0, task_name (Suc 0)])
     (t_id ` set (planned_tasks analyze_query no_files))
   \<and> continuation_check (py_lower analyze_query) no_files = None
   \<and> map t_dependencies (planned_tasks analyze_query no_files) = [{}, {task_name 0}]
   \<and> map_option (map_sum id parallel_batches)
        (plan (list_order [task_name 0, task_name (Suc 0)]) 0 0 analyze_query no_files)
     = Some (Inr [[task_name 0], [task_name (Suc 0)]])"
proof -
  have ls: "lists_sets (list_order [task_name 0, task_name (Suc 0)])
      (t_id ` set (planned_tasks analyze_query no_files))"
    by (rule lists_sets_list_order) (simp_all add: analyze_query_tasks analyze_query_analyzed)
  have cc: "continuation_check (py_lower analyze_query) no_files = None"
    by (simp add: continuation_check_no_turns no_files_def)
  from plan_batches_valid [OF ls, of 0 0] cc
  obtain p where "plan (list_order [task_name 0, task_name (Suc 0)]) 0 0 analyze_query no_files
      = Some (Inr p)"
    by auto
  then have "map_option (map_sum id parallel_batches)
        (plan (list_order [task_name 0, task_name (Suc 0)]) 0 0 analyze_query no_files)
      = Some (Inr [[task_name 0], [task_name (Suc 0)]])"
    by (auto simp: plan_unfold analyze_query_batches split: option.splits sum.splits)
  with ls cc show ?thesis
    by (simp add: analyze_query_tasks analyze_query_analyzed)
qed










end
